theory Spec2Isabelle
  imports Main
begin

section \<open>Strings\<close>

text \<open>
  Text is a list of 8-bit characters, read as the code units of ASCII text.  The
  operations below are the JavaScript string methods the scraper calls
  (\<^verbatim>\<open>toLowerCase\<close>, \<^verbatim>\<open>toUpperCase\<close> of one character, \<^verbatim>\<open>includes\<close>,
  \<^verbatim>\<open>trim\<close>, \<^verbatim>\<open>split(':')[0]\<close>) on such text: case mapping acts on the letters A-Z
  and a-z, white space is tab, line feed, vertical tab, form feed, carriage return and
  space.  Text beyond ASCII is outside the model: JavaScript also counts U+00A0 and the
  other Unicode spaces as white space and maps the case of letters beyond A-Z, which
  these definitions do not.
\<close>

definition upperChars :: string where
  "upperChars = ''ABCDEFGHIJKLMNOPQRSTUVWXYZ''"

definition lowerChars :: string where
  "lowerChars = ''abcdefghijklmnopqrstuvwxyz''"

definition digitChars :: string where
  "digitChars = ''0123456789''"

definition lowerChar :: "char \<Rightarrow> char" where
  "lowerChar c = (case map_of (zip upperChars lowerChars) c of Some l \<Rightarrow> l | None \<Rightarrow> c)"

definition upperChar :: "char \<Rightarrow> char" where
  "upperChar c = (case map_of (zip lowerChars upperChars) c of Some u \<Rightarrow> u | None \<Rightarrow> c)"

definition toLowerCase :: "string \<Rightarrow> string" where
  "toLowerCase s = map lowerChar s"

definition isSpace :: "char \<Rightarrow> bool" where
  "isSpace c = (c \<in> set [CHR '' '', CHR 0x09, CHR 0x0A, CHR 0x0B, CHR 0x0C, CHR 0x0D])"

definition isDigit :: "char \<Rightarrow> bool" where
  "isDigit c = (c \<in> set digitChars)"

definition isWordChar :: "char \<Rightarrow> bool" where
  "isWordChar c = (c \<in> set (upperChars @ lowerChars @ digitChars @ ''_''))"

definition isLineTerminator :: "char \<Rightarrow> bool" where
  "isLineTerminator c = (c \<in> set [CHR 0x0A, CHR 0x0D])"

fun startsWith :: "string \<Rightarrow> string \<Rightarrow> bool" where
  "startsWith s [] = True"
| "startsWith [] (k # ks) = False"
| "startsWith (c # cs) (k # ks) = (c = k \<and> startsWith cs ks)"

text \<open>\<^verbatim>\<open>s.includes(k)\<close>: \<open>k\<close> occurs in \<open>s\<close> as a contiguous substring.\<close>

fun includesStr :: "string \<Rightarrow> string \<Rightarrow> bool" where
  "includesStr [] k = (k = [])"
| "includesStr (c # cs) k = (startsWith (c # cs) k \<or> includesStr cs k)"

definition trim :: "string \<Rightarrow> string" where
  "trim s = rev (dropWhile isSpace (rev (dropWhile isSpace s)))"

text \<open>\<^verbatim>\<open>s.split(':')[0]\<close>: the text before the first colon, all of it when there is none.\<close>

definition beforeColon :: "string \<Rightarrow> string" where
  "beforeColon s = takeWhile (\<lambda>c. c \<noteq> CHR '':'') s"

section \<open>Regular expressions\<close>

text \<open>
  The scraper reads headings and paragraphs with JavaScript regular expressions.  They
  are embedded as syntax trees and run by a backtracking matcher that lists every way a
  pattern can match from a position, in the order in which the JavaScript matcher tries
  them (greedy quantifiers take the longest repetition first, lazy ones the shortest,
  alternatives go left to right); the first entry of the list is the match JavaScript
  reports.  An iteration of a quantifier that consumes nothing is rejected, as in
  ECMAScript's RepeatMatcher.  No pattern of the source has a capture group below a
  quantifier, so captures are never reset.
\<close>

datatype citem = CChar char | CWord | CSpace | CDigit

datatype rx =
    Eps
  | Lit string
  | Cls "citem list"
  | NCls "citem list"
  | Dot
  | Seq rx rx
  | Alt rx rx
  | Star rx
  | LazyStar rx
  | Grp nat rx
  | Bol
  | Eol

definition Plus :: "rx \<Rightarrow> rx" where
  "Plus r = Seq r (Star r)"

definition LazyPlus :: "rx \<Rightarrow> rx" where
  "LazyPlus r = Seq r (LazyStar r)"

definition Opt :: "rx \<Rightarrow> rx" where
  "Opt r = Alt r Eps"

fun seqs :: "rx list \<Rightarrow> rx" where
  "seqs [] = Eps"
| "seqs [r] = r"
| "seqs (r # rs) = Seq r (seqs rs)"

fun alts :: "rx list \<Rightarrow> rx" where
  "alts [] = Eps"
| "alts [r] = r"
| "alts (r # rs) = Alt r (alts rs)"

text \<open>A matcher state: characters consumed so far, the rest of the input, the captures.\<close>

type_synonym mstate = "nat \<times> string \<times> (nat \<times> string) list"

fun citemMatches :: "bool \<Rightarrow> citem \<Rightarrow> char \<Rightarrow> bool" where
  "citemMatches ci (CChar k) c = (if ci then lowerChar k = lowerChar c else k = c)"
| "citemMatches ci CWord c = isWordChar c"
| "citemMatches ci CSpace c = isSpace c"
| "citemMatches ci CDigit c = isDigit c"

definition clsMatches :: "bool \<Rightarrow> citem list \<Rightarrow> char \<Rightarrow> bool" where
  "clsMatches ci items c = list_ex (\<lambda>i. citemMatches ci i c) items"

fun litMatch :: "bool \<Rightarrow> string \<Rightarrow> mstate \<Rightarrow> mstate list" where
  "litMatch ci [] st = [st]"
| "litMatch ci (k # ks) (p, [], cap) = []"
| "litMatch ci (k # ks) (p, c # cs, cap) =
     (if citemMatches ci (CChar k) c then litMatch ci ks (Suc p, cs, cap) else [])"

fun oneChar :: "(char \<Rightarrow> bool) \<Rightarrow> mstate \<Rightarrow> mstate list" where
  "oneChar P (p, [], cap) = []"
| "oneChar P (p, c # cs, cap) = (if P c then [(Suc p, cs, cap)] else [])"

definition advanced :: "mstate \<Rightarrow> mstate \<Rightarrow> bool" where
  "advanced st st' = (fst st < fst st')"

fun greedy :: "nat \<Rightarrow> (mstate \<Rightarrow> mstate list) \<Rightarrow> mstate \<Rightarrow> mstate list" where
  "greedy 0 f st = [st]"
| "greedy (Suc n) f st = concat (map (greedy n f) (filter (advanced st) (f st))) @ [st]"

fun lazy :: "nat \<Rightarrow> (mstate \<Rightarrow> mstate list) \<Rightarrow> mstate \<Rightarrow> mstate list" where
  "lazy 0 f st = [st]"
| "lazy (Suc n) f st = st # concat (map (lazy n f) (filter (advanced st) (f st)))"

definition capture :: "nat \<Rightarrow> mstate \<Rightarrow> mstate \<Rightarrow> mstate" where
  "capture g st st' =
     (case st' of (p', s', cap') \<Rightarrow> (p', s', (g, take (p' - fst st) (fst (snd st))) # cap'))"

primrec ms :: "bool \<Rightarrow> rx \<Rightarrow> mstate \<Rightarrow> mstate list" where
  "ms ci Eps = (\<lambda>st. [st])"
| "ms ci (Lit ks) = litMatch ci ks"
| "ms ci (Cls items) = oneChar (clsMatches ci items)"
| "ms ci (NCls items) = oneChar (\<lambda>c. \<not> clsMatches ci items c)"
| "ms ci Dot = oneChar (\<lambda>c. \<not> isLineTerminator c)"
| "ms ci (Seq r1 r2) = (\<lambda>st. concat (map (ms ci r2) (ms ci r1 st)))"
| "ms ci (Alt r1 r2) = (\<lambda>st. ms ci r1 st @ ms ci r2 st)"
| "ms ci (Star r) = (\<lambda>st. greedy (length (fst (snd st))) (ms ci r) st)"
| "ms ci (LazyStar r) = (\<lambda>st. lazy (length (fst (snd st))) (ms ci r) st)"
| "ms ci (Grp g r) = (\<lambda>st. map (capture g st) (ms ci r st))"
| "ms ci Bol = (\<lambda>st. if fst st = 0 then [st] else [])"
| "ms ci Eol = (\<lambda>st. if fst (snd st) = [] then [st] else [])"

text \<open>
  The result of \<^verbatim>\<open>str.match(re)\<close> for a pattern without the \<^verbatim>\<open>g\<close> flag: where the
  leftmost match starts, the matched text and the captures.
\<close>

record rmatch =
  mstart :: nat
  mtext :: string
  mgroups :: "(nat \<times> string) list"

definition matchAt :: "bool \<Rightarrow> rx \<Rightarrow> nat \<Rightarrow> string \<Rightarrow> rmatch option" where
  "matchAt ci r i s =
     (case ms ci r (i, s, []) of
        [] \<Rightarrow> None
      | (p, s', cap) # _ \<Rightarrow> Some \<lparr>mstart = i, mtext = take (p - i) s, mgroups = cap\<rparr>)"

fun searchFrom :: "bool \<Rightarrow> rx \<Rightarrow> nat \<Rightarrow> string \<Rightarrow> rmatch option" where
  "searchFrom ci r i [] = matchAt ci r i []"
| "searchFrom ci r i (c # cs) =
     (case matchAt ci r i (c # cs) of
        Some m \<Rightarrow> Some m
      | None \<Rightarrow> searchFrom ci r (Suc i) cs)"

definition rxMatch :: "bool \<Rightarrow> rx \<Rightarrow> string \<Rightarrow> rmatch option" where
  "rxMatch ci r s = searchFrom ci r 0 s"

definition rxTest :: "bool \<Rightarrow> rx \<Rightarrow> string \<Rightarrow> bool" where
  "rxTest ci r s = (rxMatch ci r s \<noteq> None)"

text \<open>Capture group \<open>g\<close> of a match (the empty text when the group did not take part).\<close>

definition grp :: "rmatch \<Rightarrow> nat \<Rightarrow> string" where
  "grp m g = (case map_of (mgroups m) g of Some t \<Rightarrow> t | None \<Rightarrow> [])"

text \<open>\<^verbatim>\<open>str.replace(re, '')\<close> for a pattern without the \<^verbatim>\<open>g\<close> flag.\<close>

definition rxRemoveFirst :: "bool \<Rightarrow> rx \<Rightarrow> string \<Rightarrow> string" where
  "rxRemoveFirst ci r s =
     (case rxMatch ci r s of
        None \<Rightarrow> s
      | Some m \<Rightarrow> take (mstart m) s @ drop (mstart m + length (mtext m)) s)"

section \<open>Tier classification and heading classification\<close>

text \<open>\<^verbatim>\<open>getTierFromRaidType\<close>; the argument is \<open>None\<close> for \<^verbatim>\<open>null\<close>.\<close>

definition getTierFromRaidType :: "string option \<Rightarrow> string option" where
  "getTierFromRaidType raidType =
     (case raidType of
        None \<Rightarrow> None
      | Some rt \<Rightarrow>
          if rt = [] then None
          else let raidTypeLower = toLowerCase rt in
            if includesStr raidTypeLower ''one-star'' \<or> includesStr raidTypeLower ''1-star'' then Some ''Tier 1''
            else if includesStr raidTypeLower ''three-star'' \<or> includesStr raidTypeLower ''3-star'' then Some ''Tier 3''
            else if includesStr raidTypeLower ''five-star'' \<or> includesStr raidTypeLower ''5-star'' then Some ''Tier 5''
            else if includesStr raidTypeLower ''six-star'' \<or> includesStr raidTypeLower ''6-star'' then Some ''Tier 6''
            else if includesStr raidTypeLower ''mega'' then Some ''Mega''
            else if includesStr raidTypeLower ''primal'' then Some ''Primal''
            else if includesStr raidTypeLower ''shadow'' \<and> \<not> includesStr raidTypeLower ''star'' then Some ''Shadow''
            else None)"

text \<open>The patterns of \<^verbatim>\<open>parseRaidHeader\<close>, built as the source builds them.\<close>

definition dayNames :: rx where
  "dayNames = alts [Lit ''Monday'', Lit ''Tuesday'', Lit ''Wednesday'', Lit ''Thursday'',
                    Lit ''Friday'', Lit ''Saturday'', Lit ''Sunday'']"

text \<open>\<^verbatim>\<open>(Monday|...|Sunday),\s+\w+\s+\d+\<close> with the day names as group \<open>g\<close>.\<close>

definition datePattern :: "nat \<Rightarrow> rx" where
  "datePattern g = seqs [Grp g dayNames, Lit '','', Plus (Cls [CSpace]), Plus (Cls [CWord]),
                         Plus (Cls [CSpace]), Plus (Cls [CDigit])]"

text \<open>\<^verbatim>\<open>/([^:]+):\s*(.+)/\<close>\<close>

definition typeAndDateRx :: rx where
  "typeAndDateRx = seqs [Grp 1 (Plus (NCls [CChar CHR '':''])), Lit '':'', Star (Cls [CSpace]),
                         Grp 2 (Plus Dot)]"

text \<open>\<^verbatim>\<open>[\w-]+[\s-]*star[\s-]*(?:shadow\s+)?raids?\<close>\<close>

definition starRaidsRx :: rx where
  "starRaidsRx = seqs [Plus (Cls [CWord, CChar CHR ''-'']), Star (Cls [CSpace, CChar CHR ''-'']),
                       Lit ''star'', Star (Cls [CSpace, CChar CHR ''-'']),
                       Opt (Seq (Lit ''shadow'') (Plus (Cls [CSpace]))),
                       Lit ''raid'', Opt (Lit ''s'')]"

text \<open>\<^verbatim>\<open>appearing in\s+([\w-]+[\s-]*star[\s-]*(?:shadow\s+)?raids?)\s*\(((Monday|...|Sunday))\)\<close>\<close>

definition dayInParensRx :: rx where
  "dayInParensRx = seqs [Lit ''appearing in'', Plus (Cls [CSpace]), Grp 1 starRaidsRx,
                         Star (Cls [CSpace]), Lit ''('', Grp 2 (Grp 3 dayNames), Lit '')'']"

record header =
  h_raidType :: string
  h_date :: string

definition parseRaidHeader :: "string \<Rightarrow> string option \<Rightarrow> header option" where
  "parseRaidHeader headerText contextRaidType =
     (case (case rxMatch False typeAndDateRx headerText of
              Some m \<Rightarrow>
                if rxTest True (datePattern 1) (grp m 2)
                then Some \<lparr>h_raidType = trim (grp m 1), h_date = trim (grp m 2)\<rparr>
                else None
            | None \<Rightarrow> None) of
        Some h \<Rightarrow> Some h
      | None \<Rightarrow>
         (case (case (rxMatch True (Seq Bol (datePattern 1)) headerText, contextRaidType) of
                  (Some m, Some ctx) \<Rightarrow>
                     if ctx \<noteq> [] then Some \<lparr>h_raidType = ctx, h_date = trim (mtext m)\<rparr> else None
                | _ \<Rightarrow> None) of
            Some h \<Rightarrow> Some h
          | None \<Rightarrow>
             (case rxMatch True dayInParensRx headerText of
                Some m \<Rightarrow> Some \<lparr>h_raidType = trim (grp m 1), h_date = trim (grp m 2)\<rparr>
              | None \<Rightarrow> None)))"

text \<open>
  \<^verbatim>\<open>str.split(re)\<close>: the pattern is tried at each position \<open>q\<close> of the text in turn
  (a sticky match); \<open>cur\<close> holds, reversed, the characters since the last split point.
  A match that is empty at the last split point is skipped.
\<close>

function splitGo :: "bool \<Rightarrow> rx \<Rightarrow> nat \<Rightarrow> string \<Rightarrow> string \<Rightarrow> string list" where
  "splitGo ci r q cur [] = [rev cur]"
| "splitGo ci r q cur (c # cs) =
     (case ms ci r (q, c # cs, []) of
        [] \<Rightarrow> splitGo ci r (Suc q) (c # cur) cs
      | (p, s', cap) # _ \<Rightarrow>
          if p = q then
            (if cur = [] then splitGo ci r (Suc q) [c] cs
             else rev cur # splitGo ci r (Suc q) [c] cs)
          else rev cur # splitGo ci r p [] (drop (p - q - 1) cs))"
  by pat_completeness auto
termination
  by (relation "measure (\<lambda>(ci, r, q, cur, s). length s)") auto

definition rxSplit :: "bool \<Rightarrow> rx \<Rightarrow> string \<Rightarrow> string list" where
  "rxSplit ci r s =
     (if s = [] then (if ms ci r (0, [], []) = [] then [[]] else [])
      else splitGo ci r 0 [] s)"

section \<open>The document\<close>

text \<open>
  An element of the parsed page, with what the DOM reports for it: tag name (upper case,
  as in an HTML document), \<^verbatim>\<open>id\<close>, \<^verbatim>\<open>className\<close>, \<^verbatim>\<open>textContent\<close>, \<^verbatim>\<open>innerHTML\<close>,
  \<^verbatim>\<open>src\<close> and the child elements in document order.
\<close>

datatype node =
  Node (tagName: string) (nodeId: string) (className: string) (textContent: string)
       (innerHTML: string) (src: string) (children: "node list")

text \<open>The class tokens of a \<^verbatim>\<open>className\<close>: what a selector \<^verbatim>\<open>.name\<close> is matched against.\<close>

fun classTokens :: "string \<Rightarrow> string \<Rightarrow> string list" where
  "classTokens cur [] = (if cur = [] then [] else [rev cur])"
| "classTokens cur (c # cs) =
     (if isSpace c then (if cur = [] then classTokens [] cs else rev cur # classTokens [] cs)
      else classTokens (c # cur) cs)"

definition hasClass :: "string \<Rightarrow> node \<Rightarrow> bool" where
  "hasClass k n = (k \<in> set (classTokens [] (className n)))"

text \<open>
  Every descendant of a list of sibling elements in document order, each paired with the
  siblings that follow it (its \<^verbatim>\<open>nextElementSibling\<close> chain).
\<close>

fun descendants :: "node list \<Rightarrow> (node \<times> node list) list" where
  "descendants [] = []"
| "descendants (Node t i c x h s ks # ns) =
     (Node t i c x h s ks, ns) # descendants ks @ descendants ns"

definition querySelectorAll :: "(node \<Rightarrow> bool) \<Rightarrow> node \<Rightarrow> (node \<times> node list) list" where
  "querySelectorAll sel root = filter (\<lambda>(n, sibs). sel n) (descendants (children root))"

definition querySelector :: "(node \<Rightarrow> bool) \<Rightarrow> node \<Rightarrow> (node \<times> node list) option" where
  "querySelector sel root = find (\<lambda>(n, sibs). sel n) (descendants (children root))"

text \<open>
  \<^verbatim>\<open>collectSectionElements\<close>: the loop over \<^verbatim>\<open>nextElementSibling\<close>, given the siblings
  that follow the start heading.
\<close>

definition collectSectionElements :: "node list \<Rightarrow> node list" where
  "collectSectionElements following = takeWhile (\<lambda>current. tagName current \<noteq> ''H2'') following"

section \<open>The data model\<close>

record boss =
  name :: string
  image_url :: string
  canBeShiny :: bool
  raidType :: "string option"

text \<open>A raid-hour window \<^verbatim>\<open>{time, bosses}\<close>; its boss list is the field \<open>windowBosses\<close>.\<close>

record raidHourWindow =
  time :: string
  windowBosses :: "boss list"

record scheduleDay =
  date :: string
  bosses :: "boss list"
  raidHours :: "raidHourWindow list"
  bonuses :: "string list"

record eventData =
  raidSchedule :: "scheduleDay list"
  raidbattles :: "boss list"

record globalInfo =
  raidHourTime :: "string option"
  raidHourSectionId :: "string option"
  raidTypesWithRaidHour :: "string list"
  specialNotes :: "string list"

section \<open>Parsing bosses\<close>

definition parseBossFromElement :: "node \<Rightarrow> string option \<Rightarrow> boss option" where
  "parseBossFromElement bossElement rt =
     (case (find (hasClass ''pkmn-name'') (children bossElement),
            find (\<lambda>n. tagName n = ''IMG'')
                 (concat (map children (filter (hasClass ''pkmn-list-img'') (children bossElement))))) of
        (Some nameElement, Some imageElement) \<Rightarrow>
          Some \<lparr>name = trim (innerHTML nameElement), image_url = src imageElement,
                canBeShiny = list_ex (hasClass ''shiny-icon'') (children bossElement),
                raidType = getTierFromRaidType rt\<rparr>
      | _ \<Rightarrow> None)"

definition parseBossesFromList :: "node \<Rightarrow> string option \<Rightarrow> boss list" where
  "parseBossesFromList pokemonList rt =
     List.map_filter (\<lambda>b. parseBossFromElement b rt)
       (filter (hasClass ''pkmn-list-item'') (children pokemonList))"

section \<open>The schedule\<close>

fun findIndex :: "('a \<Rightarrow> bool) \<Rightarrow> 'a list \<Rightarrow> nat option" where
  "findIndex P [] = None"
| "findIndex P (x # xs) = (if P x then Some 0 else map_option Suc (findIndex P xs))"

text \<open>
  Find or create the entry of a date.  The source keeps a reference to the entry; the
  model keeps its index in \<open>raidSchedule\<close>, which never changes since entries are only
  appended.
\<close>

definition findOrCreateEntry :: "string \<Rightarrow> eventData \<Rightarrow> eventData \<times> nat" where
  "findOrCreateEntry d ed =
     (case findIndex (\<lambda>entry. date entry = d) (raidSchedule ed) of
        Some i \<Rightarrow> (ed, i)
      | None \<Rightarrow>
          (ed\<lparr>raidSchedule := raidSchedule ed @ [\<lparr>date = d, bosses = [], raidHours = [], bonuses = []\<rparr>]\<rparr>,
           length (raidSchedule ed)))"

text \<open>Add a boss unless one with its name is there already.\<close>

definition pushBoss :: "boss list \<Rightarrow> boss \<Rightarrow> boss list" where
  "pushBoss existing b = (if list_ex (\<lambda>e. name e = name b) existing then existing else existing @ [b])"

text \<open>
  A change of the entry at an index.  The index comes from \<open>findOrCreateEntry\<close>, which
  returns an index in range, and entries are never removed.
\<close>

definition onEntry :: "nat \<Rightarrow> (scheduleDay \<Rightarrow> scheduleDay) \<Rightarrow> eventData \<Rightarrow> eventData" where
  "onEntry i f ed =
     (if i < length (raidSchedule ed)
      then ed\<lparr>raidSchedule := (raidSchedule ed)[i := f (raidSchedule ed ! i)]\<rparr>
      else ed)"

definition addBossesToEntry :: "nat \<Rightarrow> boss list \<Rightarrow> eventData \<Rightarrow> eventData" where
  "addBossesToEntry i bs ed = onEntry i (\<lambda>entry. entry\<lparr>bosses := foldl pushBoss (bosses entry) bs\<rparr>) ed"

definition addBossesToRaidbattles :: "boss list \<Rightarrow> eventData \<Rightarrow> eventData" where
  "addBossesToRaidbattles bs ed = ed\<lparr>raidbattles := foldl pushBoss (raidbattles ed) bs\<rparr>"

section \<open>Day-based traversal\<close>

text \<open>The local variables of \<^verbatim>\<open>processDayRaidSection\<close> that its loop changes.\<close>

record dayState =
  d_currentRaidType :: "string option"
  d_inRaidHourSection :: bool
  d_raidHourTime :: "string option"
  d_raidHourBossNames :: "string list"
  d_eventData :: eventData

definition truthy :: "string option \<Rightarrow> bool" where
  "truthy v = (case v of None \<Rightarrow> False | Some t \<Rightarrow> t \<noteq> [])"

text \<open>\<^verbatim>\<open>[\d:]+\s+[ap]\.?m\.?\<close> and, when the dots are not optional, \<^verbatim>\<open>[\d:]+\s+[ap]\.m\.\<close>\<close>

definition clockRx :: "bool \<Rightarrow> rx" where
  "clockRx optionalDots =
     seqs [Plus (Cls [CDigit, CChar CHR '':'']), Plus (Cls [CSpace]),
           Cls [CChar CHR ''a'', CChar CHR ''p''],
           (if optionalDots then Opt (Lit ''.'') else Lit ''.''), Lit ''m'',
           (if optionalDots then Opt (Lit ''.'') else Lit ''.'')]"

text \<open>\<^verbatim>\<open>/from ([\d:]+\s+[ap]\.?m\.?\s+to\s+[\d:]+\s+[ap]\.?m\.?)/i\<close> (day sections) and
  \<^verbatim>\<open>/from ([\d:]+\s+[ap]\.m\.\s+to\s+[\d:]+\s+[ap]\.m\.)/i\<close> (raids sections)\<close>

definition timeRx :: "bool \<Rightarrow> rx" where
  "timeRx optionalDots =
     seqs [Lit ''from '',
           Grp 1 (seqs [clockRx optionalDots, Plus (Cls [CSpace]), Lit ''to'', Plus (Cls [CSpace]),
                        clockRx optionalDots])]"

text \<open>\<^verbatim>\<open>/featuring\s+([^.]+?)(?:\s+from|\s*\.)/i\<close>\<close>

definition featuringRx :: rx where
  "featuringRx =
     seqs [Lit ''featuring'', Plus (Cls [CSpace]), Grp 1 (LazyPlus (NCls [CChar CHR ''.''])),
           Alt (Seq (Plus (Cls [CSpace])) (Lit ''from'')) (Seq (Star (Cls [CSpace])) (Lit ''.''))]"

text \<open>\<^verbatim>\<open>/,|\s+and\s+/\<close>\<close>

definition namesSplitRx :: rx where
  "namesSplitRx = Alt (Lit '','') (seqs [Plus (Cls [CSpace]), Lit ''and'', Plus (Cls [CSpace])])"

definition dayHeadingStep :: "node \<Rightarrow> dayState \<Rightarrow> dayState" where
  "dayHeadingStep element st =
     (if tagName element = ''H3'' \<and> textContent element \<noteq> [] then
        let h3Text = trim (textContent element); h3Lower = toLowerCase h3Text in
        if includesStr h3Lower ''raid hour'' then
          st\<lparr>d_inRaidHourSection := True, d_currentRaidType := None\<rparr>
        else if includesStr h3Lower ''star'' \<and> includesStr h3Lower ''raids'' then
          st\<lparr>d_currentRaidType := Some h3Text, d_inRaidHourSection := False\<rparr>
        else if includesStr h3Lower ''primal'' \<and> includesStr h3Lower ''raids'' then
          st\<lparr>d_currentRaidType := Some ''Primal Raids'', d_inRaidHourSection := False\<rparr>
        else if includesStr h3Lower ''mega'' \<and> includesStr h3Lower ''raids'' then
          st\<lparr>d_currentRaidType := Some ''Mega Raids'', d_inRaidHourSection := False\<rparr>
        else if includesStr h3Lower ''shadow'' \<and> includesStr h3Lower ''raids'' then
          st\<lparr>d_currentRaidType := Some ''Shadow Raids'', d_inRaidHourSection := False\<rparr>
        else st
      else st)"

definition dayListStep :: "nat \<Rightarrow> node \<Rightarrow> dayState \<Rightarrow> dayState" where
  "dayListStep dateEntry element st =
     (if className element = ''pkmn-list-flex'' \<and> truthy (d_currentRaidType st)
         \<and> \<not> d_inRaidHourSection st
      then st\<lparr>d_eventData :=
                addBossesToEntry dateEntry (parseBossesFromList element (d_currentRaidType st))
                  (d_eventData st)\<rparr>
      else st)"

definition dayParagraphStep :: "node \<Rightarrow> dayState \<Rightarrow> dayState" where
  "dayParagraphStep element st =
     (if tagName element = ''P'' \<and> d_inRaidHourSection st then
        let text = trim (textContent element); textLower = toLowerCase text in
        if includesStr textLower ''raid hour'' then
          let st1 = (case rxMatch True (timeRx True) text of
                       Some timeMatch \<Rightarrow> st\<lparr>d_raidHourTime := Some (grp timeMatch 1 @ '' local time'')\<rparr>
                     | None \<Rightarrow> st)
          in (case rxMatch True featuringRx text of
                Some featuringMatch \<Rightarrow>
                  st1\<lparr>d_raidHourBossNames :=
                        filter (\<lambda>n. length n > 0)
                          (map trim (rxSplit False namesSplitRx (grp featuringMatch 1)))\<rparr>
              | None \<Rightarrow> st1)
        else st
      else st)"

definition dayStep :: "nat \<Rightarrow> dayState \<Rightarrow> node \<Rightarrow> dayState" where
  "dayStep dateEntry st element =
     dayParagraphStep element (dayListStep dateEntry element (dayHeadingStep element st))"

text \<open>The block after the loop: create the raid-hour entry of this date.\<close>

definition dayRaidHourEntry :: "nat \<Rightarrow> dayState \<Rightarrow> eventData" where
  "dayRaidHourEntry dateEntry st =
     (case d_raidHourTime st of
        None \<Rightarrow> d_eventData st
      | Some t \<Rightarrow>
          if t \<noteq> [] \<and> length (d_raidHourBossNames st) > 0 then
            onEntry dateEntry
              (\<lambda>entry.
                 let raidHourBosses =
                       filter (\<lambda>b. list_ex (\<lambda>raidHourName.
                                       includesStr (toLowerCase (name b)) (toLowerCase raidHourName))
                                     (d_raidHourBossNames st))
                              (bosses entry)
                 in if length raidHourBosses > 0
                    then entry\<lparr>raidHours := raidHours entry @
                                 [\<lparr>time = t, windowBosses = raidHourBosses\<rparr>]\<rparr>
                    else entry)
              (d_eventData st)
          else d_eventData st)"

definition processDayRaidSection :: "node list \<Rightarrow> string \<Rightarrow> eventData \<Rightarrow> eventData" where
  "processDayRaidSection elements dayHeader ed =
     (let baseDate = trim (beforeColon dayHeader);
          (ed1, dateEntry) = findOrCreateEntry baseDate ed;
          st0 = \<lparr>d_currentRaidType = None, d_inRaidHourSection = False, d_raidHourTime = None,
                 d_raidHourBossNames = [], d_eventData = ed1\<rparr>
      in dayRaidHourEntry dateEntry (foldl (dayStep dateEntry) st0 elements))"

section \<open>Section-based traversal\<close>

text \<open>The local variables of \<^verbatim>\<open>processRaidsSection\<close> and the two objects it mutates.\<close>

record raidsState =
  contextRaidType :: "string option"
  currentDate :: "string option"
  currentRaidType :: "string option"
  currentDateEntry :: "nat option"
  r_eventData :: eventData
  r_globalInfo :: globalInfo

text \<open>\<^verbatim>\<open>/appearing in\s+([\w-]+)[\s-]*raids?/i\<close>\<close>

definition appearingInRx :: rx where
  "appearingInRx =
     seqs [Lit ''appearing in'', Plus (Cls [CSpace]), Grp 1 (Plus (Cls [CWord, CChar CHR ''-''])),
           Star (Cls [CSpace, CChar CHR ''-'']), Lit ''raid'', Opt (Lit ''s'')]"

text \<open>\<^verbatim>\<open>base.charAt(0).toUpperCase() + base.slice(1)\<close>\<close>

definition capitalize :: "string \<Rightarrow> string" where
  "capitalize base = (case base of [] \<Rightarrow> [] | c # cs \<Rightarrow> upperChar c # cs)"

definition contextFromAppearing :: "string \<Rightarrow> string" where
  "contextFromAppearing captured =
     (let base = trim (rxRemoveFirst True (Seq (Plus (Cls [CSpace])) (Seq (Lit ''star'') Eol))
                        (rxRemoveFirst True (Seq (Lit ''-star'') Eol) (toLowerCase captured)))
      in capitalize base @ ''-Star Raids'')"

text \<open>The \<^verbatim>\<open>else\<close> branch of the heading block: the heading is no date header.\<close>

definition updateContext :: "string \<Rightarrow> string option \<Rightarrow> string option" where
  "updateContext h3Text ctx =
     (let h3Lower = toLowerCase h3Text in
      if includesStr h3Lower ''appearing in'' \<and> includesStr h3Lower ''raids'' then
        (case rxMatch True appearingInRx h3Text of
           Some typeMatch \<Rightarrow> Some (contextFromAppearing (grp typeMatch 1))
         | None \<Rightarrow> ctx)
      else if includesStr h3Lower ''star'' \<and> includesStr h3Lower ''raids'' then
        (case rxMatch True (Grp 1 starRaidsRx) h3Text of
           Some directMatch \<Rightarrow> Some (trim (grp directMatch 1))
         | None \<Rightarrow> ctx)
      else if includesStr h3Lower ''primal'' \<and> includesStr h3Lower ''raids'' then Some ''Primal Raids''
      else if includesStr h3Lower ''mega'' \<and> includesStr h3Lower ''raids'' then Some ''Mega Raids''
      else if includesStr h3Lower ''shadow'' \<and> includesStr h3Lower ''raids''
              \<and> \<not> includesStr h3Lower ''star'' then Some ''Shadow Raids''
      else ctx)"

definition raidsHeadingStep :: "node \<Rightarrow> raidsState \<Rightarrow> raidsState" where
  "raidsHeadingStep element st =
     (if tagName element = ''H3'' \<and> textContent element \<noteq> [] then
        let h3Text = trim (textContent element) in
        (case parseRaidHeader h3Text (contextRaidType st) of
           Some parsedHeader \<Rightarrow>
             let (ed1, entry) = findOrCreateEntry (h_date parsedHeader) (r_eventData st)
             in st\<lparr>currentDate := Some (h_date parsedHeader),
                    currentRaidType := Some (h_raidType parsedHeader),
                    currentDateEntry := Some entry,
                    r_eventData := ed1\<rparr>
         | None \<Rightarrow>
             st\<lparr>currentDate := None, currentRaidType := None, currentDateEntry := None,
                 contextRaidType := updateContext h3Text (contextRaidType st)\<rparr>)
      else st)"

definition raidsListStep :: "node \<Rightarrow> raidsState \<Rightarrow> raidsState" where
  "raidsListStep element st =
     (if className element = ''pkmn-list-flex'' then
        (case (if truthy (currentDate st) then currentDateEntry st else None) of
           Some entry \<Rightarrow>
             st\<lparr>r_eventData :=
                   addBossesToEntry entry (parseBossesFromList element (currentRaidType st))
                     (r_eventData st)\<rparr>
         | None \<Rightarrow>
             st\<lparr>r_eventData :=
                   addBossesToRaidbattles (parseBossesFromList element (contextRaidType st))
                     (r_eventData st)\<rparr>)
      else st)"

definition pushKeyword :: "string \<Rightarrow> string list \<Rightarrow> string list" where
  "pushKeyword k ks = (if k \<in> set ks then ks else ks @ [k])"

definition raidHourKeywords :: "string \<Rightarrow> string list \<Rightarrow> string list" where
  "raidHourKeywords raidHourLower ks =
     (let k1 = (if includesStr raidHourLower ''five-star'' \<or> includesStr raidHourLower ''5-star''
                then pushKeyword ''five-star'' ks else ks);
          k2 = (if includesStr raidHourLower ''shadow'' then pushKeyword ''shadow'' k1 else k1);
          k3 = (if includesStr raidHourLower ''mega'' then pushKeyword ''mega'' k2 else k2)
      in if includesStr raidHourLower ''primal'' then pushKeyword ''primal'' k3 else k3)"

definition raidHourInfoStep :: "string \<Rightarrow> node \<Rightarrow> globalInfo \<Rightarrow> globalInfo" where
  "raidHourInfoStep sectionId element gi =
     (if tagName element = ''P'' \<and> includesStr (textContent element) ''Raid Hour'' then
        let raidHourText = trim (textContent element);
            raidHourLower = toLowerCase raidHourText;
            gi1 = gi\<lparr>raidHourSectionId := Some sectionId\<rparr>;
            gi2 = (case rxMatch True (timeRx False) raidHourText of
                     Some timeMatch \<Rightarrow> gi1\<lparr>raidHourTime := Some (grp timeMatch 1 @ '' local time'')\<rparr>
                   | None \<Rightarrow> gi1)
        in gi2\<lparr>raidTypesWithRaidHour := raidHourKeywords raidHourLower (raidTypesWithRaidHour gi2)\<rparr>
      else gi)"

definition bonusNoteStep :: "node \<Rightarrow> globalInfo \<Rightarrow> globalInfo" where
  "bonusNoteStep element gi =
     (if tagName element = ''P'' then
        let noteTextLower = toLowerCase (textContent element) in
        if includesStr noteTextLower ''fusion energy'' \<or> includesStr noteTextLower ''mega energy''
           \<or> includesStr noteTextLower ''primal energy''
           \<or> includesStr noteTextLower ''adventure effect move''
        then let noteText = trim (textContent element) in
             if length noteText > 10 then gi\<lparr>specialNotes := specialNotes gi @ [noteText]\<rparr> else gi
        else gi
      else gi)"

definition raidsStep :: "string \<Rightarrow> raidsState \<Rightarrow> node \<Rightarrow> raidsState" where
  "raidsStep sectionId st element =
     (let st1 = raidsListStep element (raidsHeadingStep element st)
      in st1\<lparr>r_globalInfo := bonusNoteStep element (raidHourInfoStep sectionId element (r_globalInfo st1))\<rparr>)"

text \<open>
  The block that ends \<^verbatim>\<open>processRaidsSection\<close> (``create raid hour entries for scheduled
  days''): the raid-hour pass over the keywords recorded in \<open>raidTypesWithRaidHour\<close>.
\<close>

definition keywordBosses :: "string list \<Rightarrow> boss list \<Rightarrow> boss list" where
  "keywordBosses keywords bs =
     filter (\<lambda>b. let bossTypeLower = (case raidType b of Some t \<Rightarrow> toLowerCase t | None \<Rightarrow> [])
                 in list_ex (\<lambda>keyword. includesStr bossTypeLower keyword) keywords) bs"

definition attachWindow :: "string \<Rightarrow> (boss list \<Rightarrow> boss list) \<Rightarrow> scheduleDay \<Rightarrow> scheduleDay" where
  "attachWindow t select entry =
     (if length (raidHours entry) = 0 then
        let raidHourBosses = select (bosses entry)
        in if length raidHourBosses > 0
           then entry\<lparr>raidHours := raidHours entry @ [\<lparr>time = t, windowBosses = raidHourBosses\<rparr>]\<rparr>
           else entry
      else entry)"

definition createRaidHourEntries :: "globalInfo \<Rightarrow> eventData \<Rightarrow> eventData" where
  "createRaidHourEntries gi ed =
     (case raidHourTime gi of
        None \<Rightarrow> ed
      | Some t \<Rightarrow>
          if t \<noteq> [] then
            ed\<lparr>raidSchedule := map (attachWindow t (keywordBosses (raidTypesWithRaidHour gi))) (raidSchedule ed)\<rparr>
          else ed)"

text \<open>The loop of \<^verbatim>\<open>processRaidsSection\<close> alone, then the whole function.\<close>

definition raidsTraversal :: "node list \<Rightarrow> string \<Rightarrow> eventData \<times> globalInfo \<Rightarrow> eventData \<times> globalInfo" where
  "raidsTraversal elements sectionId eg =
     (let st = foldl (raidsStep sectionId)
                 \<lparr>contextRaidType = (if sectionId = ''appearing-in-5-star-raids''
                                       then Some ''Five-Star Raids'' else None),
                   currentDate = None, currentRaidType = None, currentDateEntry = None,
                   r_eventData = fst eg, r_globalInfo = snd eg\<rparr>
                 elements
      in (r_eventData st, r_globalInfo st))"

definition processRaidsSection :: "node list \<Rightarrow> string \<Rightarrow> eventData \<times> globalInfo \<Rightarrow> eventData \<times> globalInfo" where
  "processRaidsSection elements sectionId eg =
     (let (ed, gi) = raidsTraversal elements sectionId eg
      in (createRaidHourEntries gi ed, gi))"

section \<open>The extraction call\<close>

text \<open>
  The pass in \<^verbatim>\<open>get\<close> that distributes the raid hour of the
  \<^verbatim>\<open>appearing-in-5-star-raids\<close> section ``to all 5-star bosses''.
\<close>

definition fiveStarBosses :: "boss list \<Rightarrow> boss list" where
  "fiveStarBosses bs =
     filter (\<lambda>b. let typeLower = (case raidType b of Some t \<Rightarrow> toLowerCase t | None \<Rightarrow> [])
                 in includesStr typeLower ''tier 5'' \<or> includesStr typeLower ''five'') bs"

definition distributeRaidHour :: "globalInfo \<Rightarrow> eventData \<Rightarrow> eventData" where
  "distributeRaidHour gi ed =
     (case raidHourTime gi of
        None \<Rightarrow> ed
      | Some t \<Rightarrow>
          if t \<noteq> [] \<and> raidHourSectionId gi = Some ''appearing-in-5-star-raids'' then
            ed\<lparr>raidSchedule := map (attachWindow t fiveStarBosses) (raidSchedule ed)\<rparr>
          else ed)"

text \<open>\<^verbatim>\<open>/\s*\(.*\)/\<close>\<close>

definition parenthesizedRx :: rx where
  "parenthesizedRx = seqs [Star (Cls [CSpace]), Lit ''('', Star Dot, Lit '')'']"

definition relevantBonus :: "string \<Rightarrow> scheduleDay \<Rightarrow> bool" where
  "relevantBonus noteLower day =
     list_ex (\<lambda>b. list_ex (\<lambda>variant. includesStr noteLower variant)
                    [toLowerCase (name b),
                     toLowerCase (rxRemoveFirst False parenthesizedRx (name b))])
             (bosses day)"

definition attachNote :: "eventData \<Rightarrow> string \<Rightarrow> eventData" where
  "attachNote ed note =
     ed\<lparr>raidSchedule :=
          map (\<lambda>day. if relevantBonus (toLowerCase note) day
                     then day\<lparr>bonuses := bonuses day @ [note]\<rparr> else day)
              (raidSchedule ed)\<rparr>"

definition distributeBonuses :: "globalInfo \<Rightarrow> eventData \<Rightarrow> eventData" where
  "distributeBonuses gi ed = foldl attachNote ed (specialNotes gi)"

definition isH2 :: "node \<Rightarrow> bool" where
  "isH2 n = (tagName n = ''H2'')"

definition isH2WithId :: "string \<Rightarrow> node \<Rightarrow> bool" where
  "isH2WithId i n = (tagName n = ''H2'' \<and> nodeId n = i)"

definition emptyEventData :: eventData where
  "emptyEventData = \<lparr>raidSchedule = [], raidbattles = []\<rparr>"

definition emptyGlobalInfo :: globalInfo where
  "emptyGlobalInfo = \<lparr>raidHourTime = None, raidHourSectionId = None,
                       raidTypesWithRaidHour = [], specialNotes = []\<rparr>"

definition sectionAt :: "string \<Rightarrow> node \<Rightarrow> eventData \<times> globalInfo \<Rightarrow> eventData \<times> globalInfo" where
  "sectionAt sectionId pageContent eg =
     (case querySelector (isH2WithId sectionId) pageContent of
        Some (h2, following) \<Rightarrow> processRaidsSection (collectSectionElements following) sectionId eg
      | None \<Rightarrow> eg)"

text \<open>The body of \<^verbatim>\<open>allH2.forEach\<close>; the pattern is \<^verbatim>\<open>/^(Monday|...|Sunday),\s+\w+\s+\d+/i\<close>.\<close>

definition dayHeading :: "eventData \<Rightarrow> node \<times> node list \<Rightarrow> eventData" where
  "dayHeading ed hf =
     (let h2Text = trim (textContent (fst hf)) in
      if rxTest True (Seq Bol (datePattern 1)) h2Text
      then processDayRaidSection (collectSectionElements (snd hf)) h2Text ed
      else ed)"

definition dayTraversal :: "node \<Rightarrow> eventData \<Rightarrow> eventData" where
  "dayTraversal pageContent ed = foldl dayHeading ed (querySelectorAll isH2 pageContent)"

text \<open>
  What the \<^verbatim>\<open>then\<close> callback of \<^verbatim>\<open>get\<close> computes from the \<^verbatim>\<open>.page-content\<close> element:
  the \<^verbatim>\<open>eventData\<close> it writes.
\<close>

definition scrapeEventData :: "node \<Rightarrow> eventData" where
  "scrapeEventData pageContent =
     (let eg1 = sectionAt ''raids'' pageContent (emptyEventData, emptyGlobalInfo);
          eg2 = sectionAt ''appearing-in-5-star-raids'' pageContent eg1;
          ed3 = dayTraversal pageContent (fst eg2);
          ed4 = distributeRaidHour (snd eg2) ed3
      in distributeBonuses (snd eg2) ed4)"

subsection \<open>The fallback\<close>

datatype json = JNull | JBool bool | JNum int | JStr string | JArr "json list"
  | JObj "(string \<times> json) list"

text \<open>An entry of the backup array; \<open>extraData\<close> is \<open>None\<close> when null or absent.\<close>

record backupEntry =
  eventID :: string
  extraData :: "(string \<times> json) list option"

datatype payload = Scraped eventData | Recovered json

text \<open>A call of \<^verbatim>\<open>fs.writeFile\<close> with \<^verbatim>\<open>{id, type, data}\<close>.\<close>

record tempFile =
  f_path :: string
  f_id :: string
  f_type :: string
  f_data :: payload

text \<open>What a call of \<^verbatim>\<open>get\<close> does: the files it writes and whether its promise resolves.\<close>

record outcome =
  written :: "tempFile list"
  resolved :: bool

definition tempFileFor :: "string \<Rightarrow> payload \<Rightarrow> tempFile" where
  "tempFileFor i d = \<lparr>f_path = ''files/temp/'' @ i @ ''.json'', f_id = i, f_type = ''event'', f_data = d\<rparr>"

text \<open>\<^verbatim>\<open>Object.keys(v).length\<close>; \<open>None\<close> is the TypeError on \<^verbatim>\<open>null\<close>.\<close>

fun keyCount :: "json \<Rightarrow> nat option" where
  "keyCount JNull = None"
| "keyCount (JObj kvs) = Some (length kvs)"
| "keyCount (JArr vs) = Some (length vs)"
| "keyCount (JStr t) = Some (length t)"
| "keyCount (JBool b) = Some 0"
| "keyCount (JNum n) = Some 0"

definition fallbackData :: "(string \<times> json) list \<Rightarrow> json" where
  "fallbackData xd =
     (case map_of xd ''event'' of
        Some ev \<Rightarrow> ev
      | None \<Rightarrow>
          JObj ((case map_of xd ''raidSchedule'' of Some v \<Rightarrow> [(''raidSchedule'', v)] | None \<Rightarrow> [])
                @ (case map_of xd ''raidbattles'' of Some v \<Rightarrow> [(''raidbattles'', v)] | None \<Rightarrow> [])))"

text \<open>
  The loop of the \<^verbatim>\<open>catch\<close> callback over the backup array, then \<^verbatim>\<open>resolve()\<close>.  A
  TypeError leaves the callback: nothing more is written and the promise stays pending.
\<close>

fun fallbackLoop :: "string \<Rightarrow> backupEntry list \<Rightarrow> tempFile list \<Rightarrow> outcome" where
  "fallbackLoop i [] files = \<lparr>written = files, resolved = True\<rparr>"
| "fallbackLoop i (e # es) files =
     (case (if eventID e = i then extraData e else None) of
        None \<Rightarrow> fallbackLoop i es files
      | Some xd \<Rightarrow>
          (case keyCount (fallbackData xd) of
             None \<Rightarrow> \<lparr>written = files, resolved = False\<rparr>
           | Some n \<Rightarrow>
               if n > 0 then fallbackLoop i es (files @ [tempFileFor i (Recovered (fallbackData xd))])
               else fallbackLoop i es files))"

text \<open>
  The document \<^verbatim>\<open>JSDOM.fromURL\<close> delivers: a rejection, or a page with its
  \<^verbatim>\<open>.page-content\<close> element if it has one (without one the \<^verbatim>\<open>then\<close> callback
  throws, and the \<^verbatim>\<open>catch\<close> callback runs).
\<close>

datatype fetched = Rejected | Page "node option"

definition get :: "fetched \<Rightarrow> string \<Rightarrow> backupEntry list \<Rightarrow> outcome" where
  "get document i bkp =
     (case document of
        Page (Some pageContent) \<Rightarrow>
          \<lparr>written = [tempFileFor i (Scraped (scrapeEventData pageContent))], resolved = True\<rparr>
      | _ \<Rightarrow> fallbackLoop i bkp [])"

section \<open>Properties of the record and the specification's readings\<close>

text \<open>The closed enumeration of tier labels.\<close>

definition tierLabels :: "string list" where
  "tierLabels = [''Tier 1'', ''Tier 3'', ''Tier 5'', ''Tier 6'', ''Mega'', ''Primal'', ''Shadow'']"

definition tierOk :: "boss \<Rightarrow> bool" where
  "tierOk b = (case raidType b of None \<Rightarrow> True | Some l \<Rightarrow> l \<in> set tierLabels)"

text \<open>
  A well-formed day: boss names are unique, every window holds bosses of the day, every
  tier label is of the enumeration.  Well-formed event data: every day is, and so is the
  static roster.
\<close>

definition dayOk :: "scheduleDay \<Rightarrow> bool" where
  "dayOk day = (distinct (map name (bosses day))
      \<and> (\<forall>w \<in> set (raidHours day). set (windowBosses w) \<subseteq> set (bosses day))
      \<and> (\<forall>b \<in> set (bosses day). tierOk b))"

definition wellFormed :: "eventData \<Rightarrow> bool" where
  "wellFormed ed = ((\<forall>day \<in> set (raidSchedule ed). dayOk day)
      \<and> distinct (map name (raidbattles ed))
      \<and> (\<forall>b \<in> set (raidbattles ed). tierOk b))"

definition windowsWithinDay :: "eventData \<Rightarrow> bool" where
  "windowsWithinDay ed =
     (\<forall>day \<in> set (raidSchedule ed). \<forall>w \<in> set (raidHours day). \<forall>b \<in> set (windowBosses w).
        b \<in> set (bosses day))"

definition namesUnique :: "eventData \<Rightarrow> bool" where
  "namesUnique ed = ((\<forall>day \<in> set (raidSchedule ed). distinct (map name (bosses day)))
      \<and> distinct (map name (raidbattles ed)))"

definition tiersClosed :: "eventData \<Rightarrow> bool" where
  "tiersClosed ed =
     ((\<forall>day \<in> set (raidSchedule ed).
         (\<forall>b \<in> set (bosses day). tierOk b)
         \<and> (\<forall>w \<in> set (raidHours day). \<forall>b \<in> set (windowBosses w). tierOk b))
      \<and> (\<forall>b \<in> set (raidbattles ed). tierOk b))"

text \<open>
  The specification's reading of the raid-hour distribution of \<^verbatim>\<open>get\<close>: the bosses of a
  window are chosen by the recorded tier keywords.
\<close>

definition specDistributeRaidHour :: "globalInfo \<Rightarrow> eventData \<Rightarrow> eventData" where
  "specDistributeRaidHour gi ed =
     (case raidHourTime gi of
        None \<Rightarrow> ed
      | Some t \<Rightarrow>
          if t \<noteq> [] \<and> raidHourSectionId gi = Some ''appearing-in-5-star-raids'' then
            ed\<lparr>raidSchedule := map (attachWindow t (keywordBosses (raidTypesWithRaidHour gi)))
                                   (raidSchedule ed)\<rparr>
          else ed)"

text \<open>
  The traversal of the section at an anchor alone, without the pass that ends
  \<^verbatim>\<open>processRaidsSection\<close>; and the specification's reading of the order of the passes:
  both section traversals and the day-based traversal first, then each pass once.
\<close>

definition traversalAt :: "string \<Rightarrow> node \<Rightarrow> eventData \<times> globalInfo \<Rightarrow> eventData \<times> globalInfo" where
  "traversalAt sectionId pageContent eg =
     (case querySelector (isH2WithId sectionId) pageContent of
        Some (h2, following) \<Rightarrow> raidsTraversal (collectSectionElements following) sectionId eg
      | None \<Rightarrow> eg)"

definition specScrapeEventData :: "node \<Rightarrow> eventData" where
  "specScrapeEventData pageContent =
     (let eg1 = traversalAt ''raids'' pageContent (emptyEventData, emptyGlobalInfo);
          eg2 = traversalAt ''appearing-in-5-star-raids'' pageContent eg1;
          ed3 = dayTraversal pageContent (fst eg2);
          ed4 = distributeRaidHour (snd eg2) ed3;
          ed5 = createRaidHourEntries (snd eg2) ed4
      in distributeBonuses (snd eg2) ed5)"

text \<open>
  The specification's reading of the section collector: the siblings up to the next
  heading of the same or a higher level than the start heading's.
\<close>

definition headingLevel :: "node \<Rightarrow> nat option" where
  "headingLevel n =
     (if tagName n = ''H1'' then Some 1 else if tagName n = ''H2'' then Some 2
      else if tagName n = ''H3'' then Some 3 else if tagName n = ''H4'' then Some 4
      else if tagName n = ''H5'' then Some 5 else if tagName n = ''H6'' then Some 6
      else None)"

definition specSectionElements :: "nat \<Rightarrow> node list \<Rightarrow> node list" where
  "specSectionElements level following =
     takeWhile (\<lambda>n. case headingLevel n of None \<Rightarrow> True | Some l \<Rightarrow> level < l) following"

text \<open>What the fallback does with one entry of the backup: whether it is used.\<close>

definition usableBackup :: "string \<Rightarrow> backupEntry \<Rightarrow> bool" where
  "usableBackup i e =
     (eventID e = i \<and>
      (case extraData e of
         None \<Rightarrow> False
       | Some xd \<Rightarrow> (case keyCount (fallbackData xd) of None \<Rightarrow> False | Some n \<Rightarrow> n > 0)))"

definition recoveredFile :: "string \<Rightarrow> backupEntry \<Rightarrow> tempFile" where
  "recoveredFile i e =
     tempFileFor i (Recovered (case extraData e of None \<Rightarrow> JNull | Some xd \<Rightarrow> fallbackData xd))"

text \<open>The flattened shape with a schedule and nothing else of the event's.\<close>

definition scheduleOnly :: "(string \<times> json) list \<Rightarrow> json \<Rightarrow> bool" where
  "scheduleOnly xd v =
     (map_of xd ''event'' = None \<and> map_of xd ''raidSchedule'' = Some v
      \<and> map_of xd ''raidbattles'' = None)"

text \<open>An entry for this event whose nested \<^verbatim>\<open>event\<close> value is \<^verbatim>\<open>null\<close>.\<close>

definition nullEvent :: "string \<Rightarrow> backupEntry \<Rightarrow> bool" where
  "nullEvent i e =
     (eventID e = i \<and>
      (case extraData e of None \<Rightarrow> False | Some xd \<Rightarrow> map_of xd ''event'' = Some JNull))"

text \<open>A phrase mentions keywords: its lower-cased text contains one of them.\<close>

definition mentions :: "string \<Rightarrow> string list \<Rightarrow> bool" where
  "mentions phrase keywords = list_ex (includesStr (toLowerCase phrase)) keywords"

section \<open>Example documents\<close>

definition element :: "string \<Rightarrow> string \<Rightarrow> string \<Rightarrow> string \<Rightarrow> node list \<Rightarrow> node" where
  "element t i c x ks = Node t i c x x [] ks"

definition listItem :: "string \<Rightarrow> node" where
  "listItem n =
     element ''LI'' [] ''pkmn-list-item'' n
       [element ''DIV'' [] ''pkmn-list-img'' [] [Node ''IMG'' [] [] [] [] (n @ ''.png'') []],
        element ''DIV'' [] ''pkmn-name'' n []]"

definition bossOf :: "string \<Rightarrow> string \<Rightarrow> boss" where
  "bossOf n l = \<lparr>name = n, image_url = n @ ''.png'', canBeShiny = False, raidType = Some l\<rparr>"

text \<open>
  A page with the 5-star anchor: a dated heading, a roster that lists one boss twice and
  a raid-hour paragraph naming 5-star raids.
\<close>

definition fiveStarElements :: "node list" where
  "fiveStarElements =
     [element ''H3'' [] [] ''Tuesday, November 11'' [],
      element ''UL'' [] ''pkmn-list-flex'' [] [listItem ''Dialga'', listItem ''Dialga''],
      element ''P'' [] [] ''Raid Hour: 5-star from 6 p.m. to 7 p.m.'' []]"

definition fiveStarPage :: node where
  "fiveStarPage =
     element ''DIV'' [] ''page-content'' []
       (element ''H2'' ''appearing-in-5-star-raids'' [] ''Appearing in 5-Star Raids'' []
        # fiveStarElements)"

definition fiveStarInfo :: globalInfo where
  "fiveStarInfo = \<lparr>raidHourTime = Some ''6 p.m. to 7 p.m. local time'',
                    raidHourSectionId = Some ''appearing-in-5-star-raids'',
                    raidTypesWithRaidHour = [''five-star''], specialNotes = []\<rparr>"

definition fiveStarDay :: scheduleDay where
  "fiveStarDay = \<lparr>date = ''Tuesday, November 11'', bosses = [bossOf ''Dialga'' ''Tier 5''],
                   raidHours = [], bonuses = []\<rparr>"

definition fiveStarData :: eventData where
  "fiveStarData = \<lparr>raidSchedule = [fiveStarDay], raidbattles = []\<rparr>"

definition fiveStarWindow :: raidHourWindow where
  "fiveStarWindow = \<lparr>time = ''6 p.m. to 7 p.m. local time'',
                      windowBosses = [bossOf ''Dialga'' ''Tier 5'']\<rparr>"

text \<open>
  A page with the plain raids anchor, whose raid-hour paragraph names Mega raids, followed
  by a day section with a Mega roster.
\<close>

definition megaPage :: node where
  "megaPage =
     element ''DIV'' [] ''page-content'' []
       [element ''H2'' ''raids'' [] ''Raids'' [],
        element ''P'' [] [] ''Raid Hour: Mega from 6 p.m. to 7 p.m.'' [],
        element ''H2'' [] [] ''Monday, February 23: Kanto'' [],
        element ''H3'' [] [] ''Mega Raids'' [],
        element ''UL'' [] ''pkmn-list-flex'' [] [listItem ''Gengar'']]"

definition megaDay :: scheduleDay where
  "megaDay = \<lparr>date = ''Monday, February 23'', bosses = [bossOf ''Gengar'' ''Mega''],
               raidHours = [], bonuses = []\<rparr>"

definition megaWindow :: raidHourWindow where
  "megaWindow = \<lparr>time = ''6 p.m. to 7 p.m. local time'', windowBosses = [bossOf ''Gengar'' ''Mega'']\<rparr>"

text \<open>
  A page with a day section: a 5-star roster that lists one boss twice, and a raid-hour
  sub-section featuring one of the bosses.
\<close>

definition dayPage :: node where
  "dayPage =
     element ''DIV'' [] ''page-content'' []
       [element ''H2'' [] [] ''Monday, February 23: Kanto'' [],
        element ''H3'' [] [] ''Five-Star Raids'' [],
        element ''UL'' [] ''pkmn-list-flex'' []
          [listItem ''Mewtwo'', listItem ''Moltres'', listItem ''Mewtwo''],
        element ''H3'' [] [] ''Raid Hours'' [],
        element ''P'' [] [] ''Raid Hour featuring Mewtwo from 6 p.m. to 7 p.m.'' []]"

definition kantoDay :: scheduleDay where
  "kantoDay = \<lparr>date = ''Monday, February 23'',
                bosses = [bossOf ''Mewtwo'' ''Tier 5'', bossOf ''Moltres'' ''Tier 5''],
                raidHours = [\<lparr>time = ''6 p.m. to 7 p.m. local time'',
                              windowBosses = [bossOf ''Mewtwo'' ''Tier 5'']\<rparr>],
                bonuses = []\<rparr>"

text \<open>Event data with a day that has a window already and a day that has none.\<close>

definition twoDays :: eventData where
  "twoDays = \<lparr>raidSchedule = [kantoDay, fiveStarDay], raidbattles = [bossOf ''Gengar'' ''Mega'']\<rparr>"

text \<open>Siblings after an H2 heading: a paragraph, an H1 heading, a paragraph, an H2 heading.\<close>

definition siblingsWithH1 :: "node list" where
  "siblingsWithH1 =
     [element ''P'' [] [] ''a'' [], element ''H1'' [] [] ''b'' [], element ''P'' [] [] ''c'' [],
      element ''H2'' [] [] ''d'' [], element ''P'' [] [] ''e'' []]"

text \<open>Backup entries: the flattened shape with a schedule only, and one with no fields.\<close>

definition flatBackup :: backupEntry where
  "flatBackup = \<lparr>eventID = ''ev'', extraData = Some [(''raidSchedule'', JArr [JStr ''day''])]\<rparr>"

definition emptyBackup :: backupEntry where
  "emptyBackup = \<lparr>eventID = ''ev'', extraData = Some [(''generic'', JObj [])]\<rparr>"

text \<open>A backup entry of the nested shape whose \<^verbatim>\<open>event\<close> value is \<^verbatim>\<open>null\<close>.\<close>

definition nullBackup :: backupEntry where
  "nullBackup = \<lparr>eventID = ''ev'', extraData = Some [(''event'', JNull)]\<rparr>"

section \<open>Verification\<close>

subsection \<open>Well-formed event data\<close>

text \<open>
  Every step of the extraction keeps the event data well formed: bosses enter a roster
  through \<open>pushBoss\<close> only, with a tier label from \<open>getTierFromRaidType\<close>, and a
  window is filled by filtering the boss list of its own day.
\<close>

lemma getTier_cases:
  "getTierFromRaidType rt = None \<or> (\<exists>l \<in> set tierLabels. getTierFromRaidType rt = Some l)"
  by (simp add: getTierFromRaidType_def tierLabels_def Let_def split: option.split)

lemma parseBoss_tierOk: "parseBossFromElement e rt = Some b \<Longrightarrow> tierOk b"
  using getTier_cases [of rt]
  by (auto simp: parseBossFromElement_def tierOk_def split: option.splits prod.splits)

lemma parseBosses_tierOk: "b \<in> set (parseBossesFromList l rt) \<Longrightarrow> tierOk b"
  by (auto simp: parseBossesFromList_def map_filter_def dest: parseBoss_tierOk)

lemma pushBoss_distinct: "distinct (map name xs) \<Longrightarrow> distinct (map name (pushBoss xs b))"
  by (auto simp: pushBoss_def list_ex_iff)

lemma pushBoss_set: "set xs \<subseteq> set (pushBoss xs b) \<and> set (pushBoss xs b) \<subseteq> insert b (set xs)"
  by (auto simp: pushBoss_def)

lemma pushAll_distinct: "distinct (map name xs) \<Longrightarrow> distinct (map name (foldl pushBoss xs bs))"
  by (induction bs arbitrary: xs) (simp_all add: pushBoss_distinct)

lemma pushAll_set: "set xs \<subseteq> set (foldl pushBoss xs bs) \<and> set (foldl pushBoss xs bs) \<subseteq> set xs \<union> set bs"
proof (induction bs arbitrary: xs)
  case Nil
  show ?case by simp
next
  case (Cons b bs)
  from Cons.IH [of "pushBoss xs b"] pushBoss_set [of xs b] show ?case by auto
qed

lemma dayOk_pushAll:
  assumes "dayOk day" and "\<forall>b \<in> set bs. tierOk b"
  shows "dayOk (day\<lparr>bosses := foldl pushBoss (bosses day) bs\<rparr>)"
proof -
  let ?new = "foldl pushBoss (bosses day) bs"
  have sub: "set (bosses day) \<subseteq> set ?new" and sup: "set ?new \<subseteq> set (bosses day) \<union> set bs"
    using pushAll_set [of "bosses day" bs] by simp_all
  have "distinct (map name ?new)"
    using assms(1) by (simp add: dayOk_def pushAll_distinct)
  moreover have "\<forall>w \<in> set (raidHours day). set (windowBosses w) \<subseteq> set ?new"
    using assms(1) sub by (auto simp: dayOk_def)
  moreover have "\<forall>b \<in> set ?new. tierOk b"
    using assms sup by (auto simp: dayOk_def)
  ultimately show ?thesis by (simp add: dayOk_def)
qed

lemma dayOk_window:
  assumes "dayOk day" and "set sel \<subseteq> set (bosses day)"
  shows "dayOk (day\<lparr>raidHours := raidHours day @ [\<lparr>time = t, windowBosses = sel\<rparr>]\<rparr>)"
  using assms by (auto simp: dayOk_def)

lemma dayOk_bonus: "dayOk day \<Longrightarrow> dayOk (day\<lparr>bonuses := n\<rparr>)"
  by (simp add: dayOk_def)

lemma dayOk_fresh: "dayOk \<lparr>date = d, bosses = [], raidHours = [], bonuses = []\<rparr>"
  by (simp add: dayOk_def)

lemma wellFormed_onEntry:
  assumes "wellFormed ed" and "\<And>day. dayOk day \<Longrightarrow> dayOk (f day)"
  shows "wellFormed (onEntry i f ed)"
proof (cases "i < length (raidSchedule ed)")
  case True
  have "set ((raidSchedule ed)[i := f (raidSchedule ed ! i)])
          \<subseteq> insert (f (raidSchedule ed ! i)) (set (raidSchedule ed))"
    by (rule set_update_subset_insert)
  moreover have "dayOk (f (raidSchedule ed ! i))"
    using assms True by (simp add: wellFormed_def)
  ultimately show ?thesis using assms(1) True by (auto simp: wellFormed_def onEntry_def)
next
  case False
  then show ?thesis using assms(1) by (simp add: onEntry_def)
qed

lemma wellFormed_mapDays:
  assumes "wellFormed ed" and "\<And>day. dayOk day \<Longrightarrow> dayOk (f day)"
  shows "wellFormed (ed\<lparr>raidSchedule := map f (raidSchedule ed)\<rparr>)"
  using assms by (auto simp: wellFormed_def)

lemma findIndex_in_range: "findIndex P xs = Some i \<Longrightarrow> i < length xs \<and> P (xs ! i)"
  by (induction xs arbitrary: i) (auto split: if_splits)

lemma findOrCreateEntry_in_range:
  "findOrCreateEntry d ed = (ed1, i)
     \<Longrightarrow> i < length (raidSchedule ed1) \<and> date (raidSchedule ed1 ! i) = d"
  by (auto simp: findOrCreateEntry_def split: option.splits dest: findIndex_in_range)

lemma wellFormed_findOrCreate: "wellFormed ed \<Longrightarrow> wellFormed (fst (findOrCreateEntry d ed))"
  by (auto simp: findOrCreateEntry_def wellFormed_def dayOk_fresh split: option.split)

lemma wellFormed_addToEntry:
  "wellFormed ed \<Longrightarrow> \<forall>b \<in> set bs. tierOk b \<Longrightarrow> wellFormed (addBossesToEntry i bs ed)"
  unfolding addBossesToEntry_def by (rule wellFormed_onEntry) (simp_all add: dayOk_pushAll)

lemma wellFormed_addToRaidbattles:
  "wellFormed ed \<Longrightarrow> \<forall>b \<in> set bs. tierOk b \<Longrightarrow> wellFormed (addBossesToRaidbattles bs ed)"
  using pushAll_set [of "raidbattles ed" bs]
  by (auto simp: addBossesToRaidbattles_def wellFormed_def pushAll_distinct)

lemma dayOk_attachWindow:
  assumes "dayOk day" and "\<And>bs. set (select bs) \<subseteq> set bs"
  shows "dayOk (attachWindow t select day)"
  using assms(1) assms(2) [of "bosses day"] dayOk_window [of day "select (bosses day)" t]
  by (auto simp: attachWindow_def Let_def)

lemma wellFormed_createRaidHourEntries: "wellFormed ed \<Longrightarrow> wellFormed (createRaidHourEntries gi ed)"
  by (auto simp: createRaidHourEntries_def keywordBosses_def split: option.split
           intro!: wellFormed_mapDays dayOk_attachWindow)

lemma wellFormed_distributeRaidHour: "wellFormed ed \<Longrightarrow> wellFormed (distributeRaidHour gi ed)"
  by (auto simp: distributeRaidHour_def fiveStarBosses_def split: option.split
           intro!: wellFormed_mapDays dayOk_attachWindow)

lemma wellFormed_attachNote: "wellFormed ed \<Longrightarrow> wellFormed (attachNote ed note)"
  unfolding attachNote_def by (rule wellFormed_mapDays) (simp_all add: dayOk_bonus)

lemma wellFormed_distributeBonuses: "wellFormed ed \<Longrightarrow> wellFormed (distributeBonuses gi ed)"
proof -
  have "wellFormed ed \<Longrightarrow> wellFormed (foldl attachNote ed ns)" for ns
    by (induction ns arbitrary: ed) (simp_all add: wellFormed_attachNote)
  then show "wellFormed ed \<Longrightarrow> wellFormed (distributeBonuses gi ed)" by (simp add: distributeBonuses_def)
qed

lemma dayHeadingStep_data: "d_eventData (dayHeadingStep e st) = d_eventData st"
  by (simp add: dayHeadingStep_def Let_def)

lemma dayParagraphStep_data: "d_eventData (dayParagraphStep e st) = d_eventData st"
  by (simp add: dayParagraphStep_def Let_def split: option.split)

lemma wellFormed_dayListStep: "wellFormed (d_eventData st) \<Longrightarrow> wellFormed (d_eventData (dayListStep i e st))"
  by (simp add: dayListStep_def wellFormed_addToEntry parseBosses_tierOk)

lemma wellFormed_dayStep: "wellFormed (d_eventData st) \<Longrightarrow> wellFormed (d_eventData (dayStep i st e))"
  by (simp add: dayStep_def dayParagraphStep_data wellFormed_dayListStep dayHeadingStep_data)

lemma wellFormed_dayLoop: "wellFormed (d_eventData st) \<Longrightarrow> wellFormed (d_eventData (foldl (dayStep i) st es))"
  by (induction es arbitrary: st) (simp_all add: wellFormed_dayStep)

lemma wellFormed_dayRaidHourEntry: "wellFormed (d_eventData st) \<Longrightarrow> wellFormed (dayRaidHourEntry i st)"
  by (auto simp: dayRaidHourEntry_def Let_def split: option.split
           intro!: wellFormed_onEntry dayOk_window)

lemma wellFormed_processDay: "wellFormed ed \<Longrightarrow> wellFormed (processDayRaidSection es h ed)"
  using wellFormed_findOrCreate [of ed "trim (beforeColon h)"]
  by (auto simp: processDayRaidSection_def Let_def wellFormed_dayRaidHourEntry wellFormed_dayLoop
           split: prod.split)

lemma wellFormed_dayTraversal: "wellFormed ed \<Longrightarrow> wellFormed (dayTraversal pc ed)"
proof -
  have "wellFormed ed \<Longrightarrow> wellFormed (foldl dayHeading ed hs)" for hs
    by (induction hs arbitrary: ed) (simp_all add: dayHeading_def Let_def wellFormed_processDay)
  then show "wellFormed ed \<Longrightarrow> wellFormed (dayTraversal pc ed)" by (simp add: dayTraversal_def)
qed

lemma wellFormed_raidsHeadingStep: "wellFormed (r_eventData st) \<Longrightarrow> wellFormed (r_eventData (raidsHeadingStep e st))"
proof -
  have "wellFormed (r_eventData st) \<Longrightarrow> findOrCreateEntry d (r_eventData st) = (ed1, i) \<Longrightarrow> wellFormed ed1"
    for d ed1 i
    using wellFormed_findOrCreate [of "r_eventData st" d] by simp
  then show "wellFormed (r_eventData st) \<Longrightarrow> wellFormed (r_eventData (raidsHeadingStep e st))"
    by (auto simp: raidsHeadingStep_def Let_def split: option.split prod.split)
qed

lemma wellFormed_raidsListStep: "wellFormed (r_eventData st) \<Longrightarrow> wellFormed (r_eventData (raidsListStep e st))"
  by (simp add: raidsListStep_def wellFormed_addToEntry wellFormed_addToRaidbattles parseBosses_tierOk
           split: option.split)

lemma wellFormed_raidsStep: "wellFormed (r_eventData st) \<Longrightarrow> wellFormed (r_eventData (raidsStep sid st e))"
  by (simp add: raidsStep_def Let_def wellFormed_raidsListStep wellFormed_raidsHeadingStep)

lemma wellFormed_raidsLoop: "wellFormed (r_eventData st) \<Longrightarrow> wellFormed (r_eventData (foldl (raidsStep sid) st es))"
  by (induction es arbitrary: st) (simp_all add: wellFormed_raidsStep)

lemma wellFormed_raidsTraversal: "wellFormed (fst eg) \<Longrightarrow> wellFormed (fst (raidsTraversal es sid eg))"
  by (simp add: raidsTraversal_def Let_def wellFormed_raidsLoop)

lemma wellFormed_processRaids: "wellFormed (fst eg) \<Longrightarrow> wellFormed (fst (processRaidsSection es sid eg))"
  using wellFormed_raidsTraversal [of eg es sid]
  by (auto simp: processRaidsSection_def wellFormed_createRaidHourEntries split: prod.split)

lemma wellFormed_sectionAt: "wellFormed (fst eg) \<Longrightarrow> wellFormed (fst (sectionAt sid pc eg))"
  by (simp add: sectionAt_def wellFormed_processRaids split: option.split prod.split)

lemma wellFormed_empty: "wellFormed emptyEventData"
  by (simp add: wellFormed_def emptyEventData_def)

lemma wellFormed_scrape: "wellFormed (scrapeEventData pc)"
  by (simp add: scrapeEventData_def Let_def wellFormed_distributeBonuses wellFormed_distributeRaidHour
        wellFormed_dayTraversal wellFormed_sectionAt wellFormed_empty)

subsection \<open>The example documents, evaluated\<close>

lemma fiveStar_section:
  "sectionAt ''appearing-in-5-star-raids'' fiveStarPage (emptyEventData, emptyGlobalInfo)
     = (\<lparr>raidSchedule = [fiveStarDay], raidbattles = []\<rparr>, fiveStarInfo)"
  by code_simp

lemma fiveStar_scrape:
  "scrapeEventData fiveStarPage
     = \<lparr>raidSchedule = [fiveStarDay\<lparr>raidHours := [fiveStarWindow]\<rparr>], raidbattles = []\<rparr>"
  by code_simp

lemma day_scrape: "scrapeEventData dayPage = \<lparr>raidSchedule = [kantoDay], raidbattles = []\<rparr>"
  by code_simp

subsection \<open>Heading classification\<close>

text \<open>
  Claim C10.  Whatever the contextual raid type, \<^verbatim>\<open>parseRaidHeader\<close> reads
  ``Five-Star Raids: Tuesday, November 11'' as the raid type ``Five-Star Raids'' with the
  date ``Tuesday, November 11'', and ``Appearing in 5-Star Raids (Saturday)'' as the raid
  type ``5-Star Raids'' with the bare weekday ``Saturday'' as its date.
\<close>

theorem parseRaidHeader_examples:
  "parseRaidHeader ''Five-Star Raids: Tuesday, November 11'' ctx
     = Some \<lparr>h_raidType = ''Five-Star Raids'', h_date = ''Tuesday, November 11''\<rparr>
   \<and> parseRaidHeader ''Appearing in 5-Star Raids (Saturday)'' ctx
     = Some \<lparr>h_raidType = ''5-Star Raids'', h_date = ''Saturday''\<rparr>"
  by code_simp

theorem parseRaidHeader_examples_witness:
  "parseRaidHeader ''Five-Star Raids: Tuesday, November 11'' (Some ''Mega Raids'')
     = Some \<lparr>h_raidType = ''Five-Star Raids'', h_date = ''Tuesday, November 11''\<rparr>
   \<and> parseRaidHeader ''Appearing in 5-Star Raids (Saturday)'' None
     = Some \<lparr>h_raidType = ''5-Star Raids'', h_date = ''Saturday''\<rparr>"
  using parseRaidHeader_examples [of "Some ''Mega Raids''"] parseRaidHeader_examples [of None]
  by simp

subsection \<open>Invariants of the final record\<close>

text \<open>
  Claim C5.  In the record the extraction writes, every boss of every raid-hour window of
  a day is a boss of that same day.
\<close>

theorem windows_within_day: "windowsWithinDay (scrapeEventData pageContent)"
  using wellFormed_scrape [of pageContent]
  by (auto simp: windowsWithinDay_def wellFormed_def dayOk_def)

theorem windows_within_day_witness:
  "raidSchedule (scrapeEventData dayPage) = [kantoDay]
   \<and> windowBosses (hd (raidHours kantoDay)) = [bossOf ''Mewtwo'' ''Tier 5'']
   \<and> bossOf ''Mewtwo'' ''Tier 5'' \<in> set (bosses kantoDay)"
  using windows_within_day [of dayPage]
  by (simp add: windowsWithinDay_def day_scrape kantoDay_def)

text \<open>
  Claim C6.  In the record the extraction writes, no two bosses of a day share a name and
  no two bosses of \<open>raidbattles\<close> share a name; a boss enters a roster through
  \<open>pushBoss\<close>, which leaves the roster as it is when the name is there already and keeps
  the names distinct.
\<close>

theorem boss_names_unique:
  "namesUnique (scrapeEventData pageContent)
   \<and> (name b \<in> set (map name existing) \<longrightarrow> pushBoss existing b = existing)
   \<and> (distinct (map name existing) \<longrightarrow> distinct (map name (pushBoss existing b)))"
  using wellFormed_scrape [of pageContent]
  by (auto simp: namesUnique_def wellFormed_def dayOk_def pushBoss_def list_ex_iff)

theorem boss_names_unique_witness:
  "raidSchedule (scrapeEventData dayPage) = [kantoDay]
   \<and> map name (bosses kantoDay) = [''Mewtwo'', ''Moltres'']
   \<and> distinct (map name (bosses kantoDay))
   \<and> pushBoss (bosses kantoDay) (bossOf ''Mewtwo'' ''Mega'') = bosses kantoDay"
  using boss_names_unique [of dayPage "bossOf ''Mewtwo'' ''Mega''" "bosses kantoDay"]
  by (simp add: namesUnique_def day_scrape kantoDay_def bossOf_def)

subsection \<open>Tier classification\<close>

lemma tiersClosed_wellFormed: "wellFormed ed \<Longrightarrow> tiersClosed ed"
  by (auto simp: tiersClosed_def wellFormed_def dayOk_def)

lemma shadow_with_star:
  "includesStr (toLowerCase phrase) ''shadow'' \<Longrightarrow> includesStr (toLowerCase phrase) ''star''
     \<Longrightarrow> getTierFromRaidType (Some phrase) \<noteq> Some ''Shadow''"
  by (simp add: getTierFromRaidType_def Let_def)

lemma star_tiers:
  "(mentions phrase [''one-star'', ''1-star''] \<longrightarrow> getTierFromRaidType (Some phrase) = Some ''Tier 1'')
   \<and> (\<not> mentions phrase [''one-star'', ''1-star''] \<and> mentions phrase [''three-star'', ''3-star'']
        \<longrightarrow> getTierFromRaidType (Some phrase) = Some ''Tier 3'')
   \<and> (\<not> mentions phrase [''one-star'', ''1-star''] \<and> \<not> mentions phrase [''three-star'', ''3-star'']
        \<and> mentions phrase [''five-star'', ''5-star'']
        \<longrightarrow> getTierFromRaidType (Some phrase) = Some ''Tier 5'')
   \<and> (\<not> mentions phrase [''one-star'', ''1-star''] \<and> \<not> mentions phrase [''three-star'', ''3-star'']
        \<and> \<not> mentions phrase [''five-star'', ''5-star''] \<and> mentions phrase [''six-star'', ''6-star'']
        \<longrightarrow> getTierFromRaidType (Some phrase) = Some ''Tier 6'')"
  by (cases phrase) (auto simp: getTierFromRaidType_def Let_def mentions_def toLowerCase_def)

lemma five_star_shadow: "getTierFromRaidType (Some ''Five-Star Shadow Raids'') = Some ''Tier 5''"
  by code_simp

lemma five_star_shadow_mentions:
  "mentions ''Five-Star Shadow Raids'' [''shadow''] \<and> mentions ''Five-Star Shadow Raids'' [''star'']
   \<and> mentions ''Five-Star Shadow Raids'' [''five-star'', ''5-star'']
   \<and> \<not> mentions ''Five-Star Shadow Raids'' [''one-star'', ''1-star'']
   \<and> \<not> mentions ''Five-Star Shadow Raids'' [''three-star'', ''3-star'']"
  by code_simp

text \<open>
  Claim C7, as stated, fails.  ``Five Star Shadow Raids'' contains both ``shadow'' and
  ``star'', yet it maps to null, not to its star tier: the star keywords are the
  hyphenated ones only.  So does ``Shadow-Star Raids'', the context the section traversal
  itself builds from the heading ``Appearing in Shadow Raids''.
\<close>

theorem tier_classifier_counterexample:
  "mentions ''Five Star Shadow Raids'' [''shadow''] \<and> mentions ''Five Star Shadow Raids'' [''star'']
   \<and> getTierFromRaidType (Some ''Five Star Shadow Raids'') = None
   \<and> updateContext ''Appearing in Shadow Raids'' None = Some ''Shadow-Star Raids''
   \<and> mentions ''Shadow-Star Raids'' [''shadow''] \<and> mentions ''Shadow-Star Raids'' [''star'']
   \<and> getTierFromRaidType (Some ''Shadow-Star Raids'') = None"
  by code_simp

lemma shadow_star_without_keyword:
  "mentions phrase [''shadow''] \<and> mentions phrase [''star'']
     \<and> \<not> mentions phrase [''one-star'', ''1-star'', ''three-star'', ''3-star'',
                              ''five-star'', ''5-star'', ''six-star'', ''6-star'']
   \<longrightarrow> getTierFromRaidType (Some phrase)
        = (if mentions phrase [''mega''] then Some ''Mega''
           else if mentions phrase [''primal''] then Some ''Primal'' else None)"
  by (cases phrase) (auto simp: getTierFromRaidType_def Let_def mentions_def toLowerCase_def)

lemma five_space_star_mentions:
  "mentions ''Five Star Shadow Raids'' [''shadow''] \<and> mentions ''Five Star Shadow Raids'' [''star'']
   \<and> \<not> mentions ''Five Star Shadow Raids'' [''one-star'', ''1-star'', ''three-star'', ''3-star'',
                              ''five-star'', ''5-star'', ''six-star'', ''6-star'']
   \<and> \<not> mentions ''Five Star Shadow Raids'' [''mega'']
   \<and> \<not> mentions ''Five Star Shadow Raids'' [''primal'']"
  by code_simp

text \<open>
  Claim C7, amended.  \<^verbatim>\<open>getTierFromRaidType\<close> returns, for every input (a string or
  null), null or one of the seven tier labels; so every \<open>raidType\<close> in the record the
  extraction writes is null or one of the seven labels.  A phrase that contains both
  ``shadow'' and ``star'' is never classified as Shadow.  With a hyphenated star keyword
  it gets the star tier of the first of one, three, five, six that it contains, as
  ``Five-Star Shadow Raids'' gets Tier 5; without one it gets Mega or Primal if it
  contains that word, and null otherwise.
\<close>

theorem tier_classifier_closed:
  "(getTierFromRaidType rt = None \<or> (\<exists>l \<in> set tierLabels. getTierFromRaidType rt = Some l))
   \<and> tiersClosed (scrapeEventData pageContent)
   \<and> (mentions phrase [''shadow''] \<and> mentions phrase [''star'']
        \<longrightarrow> getTierFromRaidType (Some phrase) \<noteq> Some ''Shadow'')
   \<and> (mentions phrase [''one-star'', ''1-star''] \<longrightarrow> getTierFromRaidType (Some phrase) = Some ''Tier 1'')
   \<and> (\<not> mentions phrase [''one-star'', ''1-star''] \<and> mentions phrase [''three-star'', ''3-star'']
        \<longrightarrow> getTierFromRaidType (Some phrase) = Some ''Tier 3'')
   \<and> (\<not> mentions phrase [''one-star'', ''1-star''] \<and> \<not> mentions phrase [''three-star'', ''3-star'']
        \<and> mentions phrase [''five-star'', ''5-star'']
        \<longrightarrow> getTierFromRaidType (Some phrase) = Some ''Tier 5'')
   \<and> (\<not> mentions phrase [''one-star'', ''1-star''] \<and> \<not> mentions phrase [''three-star'', ''3-star'']
        \<and> \<not> mentions phrase [''five-star'', ''5-star''] \<and> mentions phrase [''six-star'', ''6-star'']
        \<longrightarrow> getTierFromRaidType (Some phrase) = Some ''Tier 6'')
   \<and> (mentions phrase [''shadow''] \<and> mentions phrase [''star'']
        \<and> \<not> mentions phrase [''one-star'', ''1-star'', ''three-star'', ''3-star'',
                                 ''five-star'', ''5-star'', ''six-star'', ''6-star'']
        \<longrightarrow> getTierFromRaidType (Some phrase)
            = (if mentions phrase [''mega''] then Some ''Mega''
               else if mentions phrase [''primal''] then Some ''Primal'' else None))
   \<and> getTierFromRaidType (Some ''Five-Star Shadow Raids'') = Some ''Tier 5''"
proof -
  have "mentions phrase [''shadow''] \<and> mentions phrase [''star'']
          \<longrightarrow> getTierFromRaidType (Some phrase) \<noteq> Some ''Shadow''"
    using shadow_with_star [of phrase] by (simp add: mentions_def)
  then show ?thesis
    using getTier_cases [of rt] tiersClosed_wellFormed [OF wellFormed_scrape [of pageContent]]
      star_tiers [of phrase] five_star_shadow shadow_star_without_keyword [of phrase]
    by blast
qed

theorem tier_classifier_closed_witness:
  "mentions ''Five-Star Shadow Raids'' [''shadow''] \<and> mentions ''Five-Star Shadow Raids'' [''star'']
   \<and> getTierFromRaidType (Some ''Five-Star Shadow Raids'') \<noteq> Some ''Shadow''
   \<and> getTierFromRaidType (Some ''Five-Star Shadow Raids'') = Some ''Tier 5''
   \<and> ''Tier 5'' \<in> set tierLabels
   \<and> raidSchedule (scrapeEventData dayPage) = [kantoDay]
   \<and> tierOk (hd (bosses kantoDay))
   \<and> mentions ''Five Star Shadow Raids'' [''shadow''] \<and> mentions ''Five Star Shadow Raids'' [''star'']
   \<and> \<not> mentions ''Five Star Shadow Raids'' [''one-star'', ''1-star'', ''three-star'', ''3-star'',
                              ''five-star'', ''5-star'', ''six-star'', ''6-star'']
   \<and> getTierFromRaidType (Some ''Five Star Shadow Raids'') = None"
  using tier_classifier_closed [of "Some ''Five-Star Shadow Raids''" dayPage "''Five-Star Shadow Raids''"]
    tier_classifier_closed [of None dayPage "''Five Star Shadow Raids''"]
    five_star_shadow_mentions five_space_star_mentions
  by (simp add: tiersClosed_def day_scrape kantoDay_def tierLabels_def)

subsection \<open>The raid-hour passes\<close>

lemma labels_without_five_star:
  "\<forall>l \<in> set tierLabels. \<not> includesStr l ''five-star'' \<and> \<not> includesStr (toLowerCase l) ''five-star''"
  by code_simp

lemma tierOk_not_five_star: "tierOk b \<Longrightarrow> keywordBosses [''five-star''] [b] = []"
  using labels_without_five_star
  by (auto simp: keywordBosses_def tierOk_def Let_def toLowerCase_def split: option.splits)

lemma keywordBosses_five_star: "\<forall>b \<in> set bs. tierOk b \<Longrightarrow> keywordBosses [''five-star''] bs = []"
proof (induction bs)
  case Nil
  show ?case by (simp add: keywordBosses_def)
next
  case (Cons b bs)
  have "keywordBosses [''five-star''] (b # bs)
          = keywordBosses [''five-star''] [b] @ keywordBosses [''five-star''] bs"
    by (simp add: keywordBosses_def)
  with Cons show ?case by (simp add: tierOk_not_five_star)
qed

lemma attachWindow_none: "select (bosses day) = [] \<Longrightarrow> attachWindow t select day = day"
  by (simp add: attachWindow_def)

lemma five_star_keyword_pass:
  assumes "tiersClosed ed" and "raidTypesWithRaidHour gi = [''five-star'']"
  shows "createRaidHourEntries gi ed = ed"
proof -
  have "map (attachWindow t (keywordBosses [''five-star''])) (raidSchedule ed) = raidSchedule ed" for t
    using assms(1) by (intro map_idI attachWindow_none keywordBosses_five_star) (simp add: tiersClosed_def)
  then show ?thesis using assms(2) by (simp add: createRaidHourEntries_def split: option.split)
qed

text \<open>
  Claim C3.  A tier label that \<^verbatim>\<open>getTierFromRaidType\<close> returns never contains
  ``five-star'', so no parsed boss is selected by that keyword; hence, when ``five-star''
  is the only keyword recorded, the raid-hour pass that ends \<^verbatim>\<open>processRaidsSection\<close>
  attaches no window to any day: it leaves the event data as the traversal left it.
\<close>

theorem five_star_keyword_attaches_nothing:
  "(\<forall>l. getTierFromRaidType rt = Some l
        \<longrightarrow> \<not> includesStr l ''five-star'' \<and> \<not> includesStr (toLowerCase l) ''five-star'')
   \<and> (\<forall>b \<in> set (parseBossesFromList pokemonList rt). keywordBosses [''five-star''] [b] = [])
   \<and> (tiersClosed ed \<and> raidTypesWithRaidHour gi = [''five-star'']
        \<longrightarrow> createRaidHourEntries gi ed = ed)
   \<and> (wellFormed (fst eg) \<and> raidTypesWithRaidHour (snd (raidsTraversal elements sectionId eg)) = [''five-star'']
        \<longrightarrow> processRaidsSection elements sectionId eg = raidsTraversal elements sectionId eg)"
proof -
  have a: "\<forall>l. getTierFromRaidType rt = Some l
             \<longrightarrow> \<not> includesStr l ''five-star'' \<and> \<not> includesStr (toLowerCase l) ''five-star''"
    using getTier_cases [of rt] labels_without_five_star by auto
  have b: "\<forall>b \<in> set (parseBossesFromList pokemonList rt). keywordBosses [''five-star''] [b] = []"
    by (simp add: tierOk_not_five_star parseBosses_tierOk)
  have c: "tiersClosed ed \<and> raidTypesWithRaidHour gi = [''five-star'']
             \<longrightarrow> createRaidHourEntries gi ed = ed"
    by (simp add: five_star_keyword_pass)
  have d: "wellFormed (fst eg) \<and> raidTypesWithRaidHour (snd (raidsTraversal elements sectionId eg)) = [''five-star'']
             \<longrightarrow> processRaidsSection elements sectionId eg = raidsTraversal elements sectionId eg"
  proof (intro impI, elim conjE)
    assume wf: "wellFormed (fst eg)"
      and kw: "raidTypesWithRaidHour (snd (raidsTraversal elements sectionId eg)) = [''five-star'']"
    have "tiersClosed (fst (raidsTraversal elements sectionId eg))"
      using wf by (simp add: tiersClosed_wellFormed wellFormed_raidsTraversal)
    then have "createRaidHourEntries (snd (raidsTraversal elements sectionId eg))
                 (fst (raidsTraversal elements sectionId eg))
               = fst (raidsTraversal elements sectionId eg)"
      using kw by (rule five_star_keyword_pass)
    then show "processRaidsSection elements sectionId eg = raidsTraversal elements sectionId eg"
      by (auto simp: processRaidsSection_def split: prod.split)
  qed
  from a b c d show ?thesis by blast
qed

lemma fiveStar_state:
  "tiersClosed fiveStarData
   \<and> raidTypesWithRaidHour fiveStarInfo = [''five-star'']
   \<and> raidHourTime fiveStarInfo = Some ''6 p.m. to 7 p.m. local time''
   \<and> bosses fiveStarDay = [bossOf ''Dialga'' ''Tier 5'']
   \<and> raidSchedule fiveStarData = [fiveStarDay]
   \<and> wellFormed emptyEventData"
  by code_simp

lemma fiveStar_traversal:
  "raidsTraversal fiveStarElements ''appearing-in-5-star-raids'' (emptyEventData, emptyGlobalInfo)
     = (fiveStarData, fiveStarInfo)"
  by code_simp

theorem five_star_keyword_attaches_nothing_witness:
  "tiersClosed fiveStarData
   \<and> raidTypesWithRaidHour fiveStarInfo = [''five-star'']
   \<and> raidHourTime fiveStarInfo = Some ''6 p.m. to 7 p.m. local time''
   \<and> raidSchedule fiveStarData = [fiveStarDay]
   \<and> bosses fiveStarDay = [bossOf ''Dialga'' ''Tier 5'']
   \<and> createRaidHourEntries fiveStarInfo fiveStarData = fiveStarData
   \<and> wellFormed emptyEventData
   \<and> raidsTraversal fiveStarElements ''appearing-in-5-star-raids'' (emptyEventData, emptyGlobalInfo)
       = (fiveStarData, fiveStarInfo)
   \<and> processRaidsSection fiveStarElements ''appearing-in-5-star-raids'' (emptyEventData, emptyGlobalInfo)
       = (fiveStarData, fiveStarInfo)"
  using five_star_keyword_attaches_nothing
          [of "Some ''Five-Star Raids''" "element [] [] [] [] []" fiveStarData fiveStarInfo
              "(emptyEventData, emptyGlobalInfo)" fiveStarElements "''appearing-in-5-star-raids''"]
    fiveStar_state fiveStar_traversal
  by simp

lemma createRaidHourEntries_shape:
  "createRaidHourEntries gi ed = ed
   \<or> (\<exists>t select. createRaidHourEntries gi ed
         = ed\<lparr>raidSchedule := map (attachWindow t select) (raidSchedule ed)\<rparr>)"
proof (cases "raidHourTime gi")
  case None
  then show ?thesis by (simp add: createRaidHourEntries_def)
next
  case (Some t)
  show ?thesis
  proof (cases "t = []")
    case True
    with Some show ?thesis by (simp add: createRaidHourEntries_def)
  next
    case False
    with Some have "createRaidHourEntries gi ed
        = ed\<lparr>raidSchedule := map (attachWindow t (keywordBosses (raidTypesWithRaidHour gi)))
                               (raidSchedule ed)\<rparr>"
      by (simp add: createRaidHourEntries_def)
    then show ?thesis by blast
  qed
qed

lemma distributeRaidHour_shape:
  "distributeRaidHour gi ed = ed
   \<or> (\<exists>t select. distributeRaidHour gi ed
         = ed\<lparr>raidSchedule := map (attachWindow t select) (raidSchedule ed)\<rparr>)"
proof (cases "raidHourTime gi")
  case None
  then show ?thesis by (simp add: distributeRaidHour_def)
next
  case (Some t)
  show ?thesis
  proof (cases "t \<noteq> [] \<and> raidHourSectionId gi = Some ''appearing-in-5-star-raids''")
    case False
    with Some show ?thesis by (auto simp: distributeRaidHour_def)
  next
    case True
    with Some have "distributeRaidHour gi ed
        = ed\<lparr>raidSchedule := map (attachWindow t fiveStarBosses) (raidSchedule ed)\<rparr>"
      by (simp add: distributeRaidHour_def)
    then show ?thesis by blast
  qed
qed

lemma pass_shape:
  assumes "pass = createRaidHourEntries gi \<or> pass = distributeRaidHour gi"
  shows "pass ed = ed \<or> (\<exists>t select. pass ed = ed\<lparr>raidSchedule := map (attachWindow t select) (raidSchedule ed)\<rparr>)"
  using assms createRaidHourEntries_shape [of gi ed] distributeRaidHour_shape [of gi ed] by blast

text \<open>
  Claim C4.  Each raid-hour distribution pass (the one that ends \<^verbatim>\<open>processRaidsSection\<close>
  and the one in \<^verbatim>\<open>get\<close>) leaves a day that has a window already exactly as it is; it
  changes no date, boss list or bonus list of any day, adds and removes no day, leaves
  \<open>raidbattles\<close> alone, and a day it does change had no window before and has one after.
\<close>

theorem raid_hour_passes_frame:
  assumes "pass = createRaidHourEntries gi \<or> pass = distributeRaidHour gi"
  shows "raidbattles (pass ed) = raidbattles ed
    \<and> length (raidSchedule (pass ed)) = length (raidSchedule ed)
    \<and> (\<forall>i < length (raidSchedule ed).
          (raidHours (raidSchedule ed ! i) \<noteq> [] \<longrightarrow> raidSchedule (pass ed) ! i = raidSchedule ed ! i)
          \<and> date (raidSchedule (pass ed) ! i) = date (raidSchedule ed ! i)
          \<and> bosses (raidSchedule (pass ed) ! i) = bosses (raidSchedule ed ! i)
          \<and> bonuses (raidSchedule (pass ed) ! i) = bonuses (raidSchedule ed ! i)
          \<and> (raidSchedule (pass ed) ! i \<noteq> raidSchedule ed ! i
               \<longrightarrow> raidHours (raidSchedule ed ! i) = []
                   \<and> length (raidHours (raidSchedule (pass ed) ! i)) = 1))"
proof -
  let ?frame = "\<lambda>i.
          (raidHours (raidSchedule ed ! i) \<noteq> [] \<longrightarrow> raidSchedule (pass ed) ! i = raidSchedule ed ! i)
          \<and> date (raidSchedule (pass ed) ! i) = date (raidSchedule ed ! i)
          \<and> bosses (raidSchedule (pass ed) ! i) = bosses (raidSchedule ed ! i)
          \<and> bonuses (raidSchedule (pass ed) ! i) = bonuses (raidSchedule ed ! i)
          \<and> (raidSchedule (pass ed) ! i \<noteq> raidSchedule ed ! i
               \<longrightarrow> raidHours (raidSchedule ed ! i) = []
                   \<and> length (raidHours (raidSchedule (pass ed) ! i)) = 1)"
  have "raidbattles (pass ed) = raidbattles ed
        \<and> length (raidSchedule (pass ed)) = length (raidSchedule ed)
        \<and> (\<forall>i < length (raidSchedule ed). ?frame i)"
  proof (rule disjE [OF pass_shape [OF assms, of ed]])
    assume same: "pass ed = ed"
    show ?thesis by (simp only: same) simp
  next
    assume "\<exists>t select. pass ed = ed\<lparr>raidSchedule := map (attachWindow t select) (raidSchedule ed)\<rparr>"
    then obtain t select
      where shape: "pass ed = ed\<lparr>raidSchedule := map (attachWindow t select) (raidSchedule ed)\<rparr>"
      by (elim exE)
    have rb: "raidbattles (pass ed) = raidbattles ed"
      by (simp only: shape) simp
    have sched: "raidSchedule (pass ed) = map (attachWindow t select) (raidSchedule ed)"
      by (simp only: shape) simp
    have len: "length (raidSchedule (pass ed)) = length (raidSchedule ed)"
      by (simp only: sched length_map)
    have "?frame i" if "i < length (raidSchedule ed)" for i
    proof -
      have eq: "raidSchedule (pass ed) ! i = attachWindow t select (raidSchedule ed ! i)"
        using that by (simp only: sched nth_map)
      show ?thesis
        unfolding eq by (simp add: attachWindow_def Let_def)
    qed
    then have "\<forall>i < length (raidSchedule ed). ?frame i"
      by (intro allI impI)
    with rb len show ?thesis by (intro conjI)
  qed
  then show ?thesis .
qed


lemma twoDays_pass:
  "distributeRaidHour fiveStarInfo twoDays
     = \<lparr>raidSchedule = [kantoDay, fiveStarDay\<lparr>raidHours := [fiveStarWindow]\<rparr>],
        raidbattles = [bossOf ''Gengar'' ''Mega'']\<rparr>
   \<and> raidSchedule twoDays = [kantoDay, fiveStarDay]
   \<and> raidbattles twoDays = [bossOf ''Gengar'' ''Mega'']
   \<and> raidHours kantoDay \<noteq> [] \<and> raidHours fiveStarDay = []
   \<and> fiveStarBosses (bosses kantoDay) = bosses kantoDay"
  by code_simp

theorem raid_hour_passes_frame_witness:
  "raidSchedule twoDays = [kantoDay, fiveStarDay]
   \<and> raidHours kantoDay \<noteq> []
   \<and> fiveStarBosses (bosses kantoDay) = bosses kantoDay
   \<and> raidSchedule (distributeRaidHour fiveStarInfo twoDays) ! 0 = kantoDay
   \<and> raidHours fiveStarDay = []
   \<and> raidSchedule (distributeRaidHour fiveStarInfo twoDays) ! 1 = fiveStarDay\<lparr>raidHours := [fiveStarWindow]\<rparr>
   \<and> raidbattles (distributeRaidHour fiveStarInfo twoDays) = raidbattles twoDays"
proof -
  have "raidHours (raidSchedule twoDays ! 0) \<noteq> []
          \<longrightarrow> raidSchedule (distributeRaidHour fiveStarInfo twoDays) ! 0 = raidSchedule twoDays ! 0"
    using raid_hour_passes_frame [of "distributeRaidHour fiveStarInfo" fiveStarInfo twoDays]
      twoDays_pass
    by simp
  then have "raidSchedule (distributeRaidHour fiveStarInfo twoDays) ! 0 = kantoDay"
    by (simp add: twoDays_pass)
  then show ?thesis by (simp add: twoDays_pass)
qed

lemma fiveStar_passes:
  "specDistributeRaidHour fiveStarInfo fiveStarData = fiveStarData
   \<and> distributeRaidHour fiveStarInfo fiveStarData
       = \<lparr>raidSchedule = [fiveStarDay\<lparr>raidHours := [fiveStarWindow]\<rparr>], raidbattles = []\<rparr>
   \<and> raidHourTime fiveStarInfo = Some ''6 p.m. to 7 p.m. local time''
   \<and> raidHourSectionId fiveStarInfo = Some ''appearing-in-5-star-raids''
   \<and> raidSchedule fiveStarData = [fiveStarDay]
   \<and> raidHours fiveStarDay = []
   \<and> fiveStarBosses (bosses fiveStarDay) = [bossOf ''Dialga'' ''Tier 5'']
   \<and> keywordBosses (raidTypesWithRaidHour fiveStarInfo) (bosses fiveStarDay) = []
   \<and> fiveStarData \<noteq> \<lparr>raidSchedule = [fiveStarDay\<lparr>raidHours := [fiveStarWindow]\<rparr>], raidbattles = []\<rparr>"
  by code_simp

text \<open>
  Claim C1, as stated, fails.  The page \<open>fiveStarPage\<close> records a raid-hour time in the
  5-star section with the one keyword ``five-star''; its day has no window and one boss,
  labelled ``Tier 5''.  No recorded keyword occurs in that label, so choosing the bosses
  by the recorded keywords attaches nothing, whereas the pass in \<^verbatim>\<open>get\<close> attaches a
  window with that boss.
\<close>

theorem five_star_pass_counterexample:
  "sectionAt ''appearing-in-5-star-raids'' fiveStarPage (emptyEventData, emptyGlobalInfo)
     = (fiveStarData, fiveStarInfo)
   \<and> keywordBosses (raidTypesWithRaidHour fiveStarInfo) (bosses fiveStarDay) = []
   \<and> specDistributeRaidHour fiveStarInfo fiveStarData = fiveStarData
   \<and> distributeRaidHour fiveStarInfo fiveStarData
       = \<lparr>raidSchedule = [fiveStarDay\<lparr>raidHours := [fiveStarWindow]\<rparr>], raidbattles = []\<rparr>
   \<and> distributeRaidHour fiveStarInfo fiveStarData \<noteq> specDistributeRaidHour fiveStarInfo fiveStarData"
  using fiveStar_section fiveStar_passes by (auto simp: fiveStarData_def)

lemma five_star_labels:
  "\<forall>l \<in> set tierLabels.
     (includesStr (toLowerCase l) ''tier 5'' \<or> includesStr (toLowerCase l) ''five'') = (l = ''Tier 5'')"
  by code_simp

lemma fiveStarBosses_member:
  "b \<in> set (fiveStarBosses bs)
     \<longleftrightarrow> b \<in> set bs \<and> (\<exists>l. raidType b = Some l
            \<and> (includesStr (toLowerCase l) ''tier 5'' \<or> includesStr (toLowerCase l) ''five''))"
  by (auto simp: fiveStarBosses_def Let_def split: option.splits)

lemma fiveStarBosses_tier5:
  assumes "tierOk b"
  shows "b \<in> set (fiveStarBosses bs) \<longleftrightarrow> b \<in> set bs \<and> raidType b = Some ''Tier 5''"
proof (cases "raidType b")
  case None
  then show ?thesis by (simp add: fiveStarBosses_member)
next
  case (Some l)
  with assms have "l \<in> set tierLabels" by (simp add: tierOk_def)
  with five_star_labels
  have "(includesStr (toLowerCase l) ''tier 5'' \<or> includesStr (toLowerCase l) ''five'') = (l = ''Tier 5'')"
    by blast
  with Some show ?thesis by (simp add: fiveStarBosses_member)
qed

text \<open>
  Claim C1, amended.  If a raid-hour time was recorded and it came from the 5-star
  section, the pass in \<^verbatim>\<open>get\<close> gives every day without a window exactly one window, with
  the recorded time and the day's bosses whose lower-cased tier label contains ``tier 5''
  or ``five'', provided there is such a boss; every other day stays as it is.  The
  recorded keywords play no part; among labels of the enumeration the bosses chosen are
  those labelled ``Tier 5''.
\<close>

theorem five_star_pass:
  assumes "raidHourTime gi = Some t" and "t \<noteq> []"
    and "raidHourSectionId gi = Some ''appearing-in-5-star-raids''"
  shows "raidbattles (distributeRaidHour gi ed) = raidbattles ed
    \<and> raidSchedule (distributeRaidHour gi ed)
        = map (\<lambda>day. if raidHours day = [] \<and> fiveStarBosses (bosses day) \<noteq> []
                     then day\<lparr>raidHours := [\<lparr>time = t, windowBosses = fiveStarBosses (bosses day)\<rparr>]\<rparr>
                     else day)
              (raidSchedule ed)
    \<and> (b \<in> set (fiveStarBosses bs)
        \<longleftrightarrow> b \<in> set bs \<and> (\<exists>l. raidType b = Some l
              \<and> (includesStr (toLowerCase l) ''tier 5'' \<or> includesStr (toLowerCase l) ''five'')))
    \<and> (tierOk b \<longrightarrow> (b \<in> set (fiveStarBosses bs) \<longleftrightarrow> b \<in> set bs \<and> raidType b = Some ''Tier 5''))"
proof -
  have "attachWindow t fiveStarBosses day
          = (if raidHours day = [] \<and> fiveStarBosses (bosses day) \<noteq> []
             then day\<lparr>raidHours := [\<lparr>time = t, windowBosses = fiveStarBosses (bosses day)\<rparr>]\<rparr>
             else day)" for day
    by (simp add: attachWindow_def Let_def)
  then have "raidSchedule (distributeRaidHour gi ed)
        = map (\<lambda>day. if raidHours day = [] \<and> fiveStarBosses (bosses day) \<noteq> []
                     then day\<lparr>raidHours := [\<lparr>time = t, windowBosses = fiveStarBosses (bosses day)\<rparr>]\<rparr>
                     else day)
              (raidSchedule ed)"
    using assms by (simp add: distributeRaidHour_def)
  moreover have "raidbattles (distributeRaidHour gi ed) = raidbattles ed"
    using assms by (simp add: distributeRaidHour_def)
  ultimately show ?thesis
    using fiveStarBosses_member [of b bs] fiveStarBosses_tier5 [of b bs] by blast
qed

theorem five_star_pass_witness:
  "raidHourTime fiveStarInfo = Some ''6 p.m. to 7 p.m. local time''
   \<and> raidHourSectionId fiveStarInfo = Some ''appearing-in-5-star-raids''
   \<and> raidSchedule fiveStarData = [fiveStarDay]
   \<and> raidHours fiveStarDay = []
   \<and> fiveStarBosses (bosses fiveStarDay) = [bossOf ''Dialga'' ''Tier 5'']
   \<and> raidSchedule (distributeRaidHour fiveStarInfo fiveStarData)
       = [fiveStarDay\<lparr>raidHours := [\<lparr>time = ''6 p.m. to 7 p.m. local time'',
                                       windowBosses = [bossOf ''Dialga'' ''Tier 5'']\<rparr>]\<rparr>]"
proof -
  have t: "raidHourTime fiveStarInfo = Some ''6 p.m. to 7 p.m. local time''"
    and s: "raidHourSectionId fiveStarInfo = Some ''appearing-in-5-star-raids''"
    using fiveStar_passes by simp_all
  have "''6 p.m. to 7 p.m. local time'' \<noteq> []" by simp
  from five_star_pass [OF t this s, of fiveStarData] fiveStar_passes
  show ?thesis by simp
qed

subsection \<open>The order of the passes\<close>

lemma mega_scrape: "scrapeEventData megaPage = \<lparr>raidSchedule = [megaDay], raidbattles = []\<rparr>"
  by code_simp

lemma mega_spec:
  "specScrapeEventData megaPage
     = \<lparr>raidSchedule = [megaDay\<lparr>raidHours := [megaWindow]\<rparr>], raidbattles = []\<rparr>"
  by code_simp

lemma mega_facts:
  "megaDay \<noteq> megaDay\<lparr>raidHours := [megaWindow]\<rparr>
   \<and> raidHours megaDay = []
   \<and> querySelector (isH2WithId ''raids'') megaPage \<noteq> None
   \<and> querySelector (isH2WithId ''appearing-in-5-star-raids'') megaPage = None
   \<and> traversalAt ''raids'' megaPage (emptyEventData, emptyGlobalInfo)
       = (emptyEventData,
          \<lparr>raidHourTime = Some ''6 p.m. to 7 p.m. local time'', raidHourSectionId = Some ''raids'',
           raidTypesWithRaidHour = [''mega''], specialNotes = []\<rparr>)"
  by code_simp

text \<open>
  Claim C2, as stated, fails.  On \<open>megaPage\<close> the raids section records a raid hour for
  Mega raids, and a day section that follows lists a Mega boss.  Were the keyword pass
  run once after all traversal, that day would get a window; the extraction leaves it
  without one, since the keyword pass ran when \<^verbatim>\<open>processRaidsSection\<close> ended, before
  the day existed.
\<close>

theorem pass_order_counterexample:
  "scrapeEventData megaPage = \<lparr>raidSchedule = [megaDay], raidbattles = []\<rparr>
   \<and> specScrapeEventData megaPage
       = \<lparr>raidSchedule = [megaDay\<lparr>raidHours := [megaWindow]\<rparr>], raidbattles = []\<rparr>
   \<and> scrapeEventData megaPage \<noteq> specScrapeEventData megaPage"
  using mega_facts by (simp add: mega_scrape mega_spec)

lemma sectionAt_traversalAt:
  "sectionAt sectionId pageContent eg
     = (if querySelector (isH2WithId sectionId) pageContent = None
        then traversalAt sectionId pageContent eg
        else (createRaidHourEntries (snd (traversalAt sectionId pageContent eg))
                (fst (traversalAt sectionId pageContent eg)),
              snd (traversalAt sectionId pageContent eg)))"
  by (auto simp: sectionAt_def traversalAt_def processRaidsSection_def split: option.split prod.split)

lemma raidHours_attachNote:
  "map raidHours (raidSchedule (attachNote ed note)) = map raidHours (raidSchedule ed)"
  by (simp add: attachNote_def comp_def)

lemma raidHours_distributeBonuses:
  "map raidHours (raidSchedule (distributeBonuses gi ed)) = map raidHours (raidSchedule ed)"
proof -
  have "map raidHours (raidSchedule (foldl attachNote ed ns)) = map raidHours (raidSchedule ed)" for ns
    by (induction ns arbitrary: ed) (simp_all add: raidHours_attachNote)
  then show ?thesis by (simp add: distributeBonuses_def)
qed

lemma distributeRaidHour_other_section:
  "raidHourSectionId gi \<noteq> Some ''appearing-in-5-star-raids'' \<Longrightarrow> distributeRaidHour gi ed = ed"
  by (simp add: distributeRaidHour_def split: option.split)

text \<open>
  Claim C2, amended.  The raid-hour distribution of \<^verbatim>\<open>get\<close> and the bonus distribution
  each run once, after all section-based and day-based traversal.  The keyword pass over
  \<open>raidTypesWithRaidHour\<close> runs at the end of each \<^verbatim>\<open>processRaidsSection\<close> call, that is
  once after the traversal of each anchor section the page has, and before the day-based
  traversal; it does not run for an anchor the page lacks.  So, unless the raid hour came
  from the 5-star section, the windows of the final record are those the day-based
  traversal left.
\<close>

theorem pass_order:
  "(let r1 = traversalAt ''raids'' pageContent (emptyEventData, emptyGlobalInfo);
        ed1 = (if querySelector (isH2WithId ''raids'') pageContent = None then fst r1
               else createRaidHourEntries (snd r1) (fst r1));
        r2 = traversalAt ''appearing-in-5-star-raids'' pageContent (ed1, snd r1);
        ed2 = (if querySelector (isH2WithId ''appearing-in-5-star-raids'') pageContent = None
               then fst r2 else createRaidHourEntries (snd r2) (fst r2));
        ed3 = dayTraversal pageContent ed2
    in scrapeEventData pageContent = distributeBonuses (snd r2) (distributeRaidHour (snd r2) ed3)
       \<and> (raidHourSectionId (snd r2) \<noteq> Some ''appearing-in-5-star-raids''
            \<longrightarrow> map raidHours (raidSchedule (scrapeEventData pageContent))
                = map raidHours (raidSchedule ed3)))"
  by (simp add: scrapeEventData_def Let_def sectionAt_traversalAt raidHours_distributeBonuses
        distributeRaidHour_other_section)

theorem pass_order_witness:
  "querySelector (isH2WithId ''raids'') megaPage \<noteq> None
   \<and> querySelector (isH2WithId ''appearing-in-5-star-raids'') megaPage = None
   \<and> scrapeEventData megaPage
       = (let r1 = traversalAt ''raids'' megaPage (emptyEventData, emptyGlobalInfo);
              r2 = traversalAt ''appearing-in-5-star-raids'' megaPage
                     (createRaidHourEntries (snd r1) (fst r1), snd r1)
          in distributeBonuses (snd r2) (distributeRaidHour (snd r2) (dayTraversal megaPage (fst r2))))
   \<and> scrapeEventData megaPage = \<lparr>raidSchedule = [megaDay], raidbattles = []\<rparr>
   \<and> raidHours megaDay = []"
  using pass_order [of megaPage] mega_facts by (simp add: mega_scrape Let_def)

subsection \<open>Section collection\<close>

text \<open>
  Claim C9, as stated, fails.  After an H2 heading followed by a paragraph, an H1 heading,
  a paragraph and an H2 heading, collection up to the next heading of the same or a higher
  level stops at the H1 heading; \<^verbatim>\<open>collectSectionElements\<close> goes on to the H2 heading.
\<close>

theorem collect_counterexample:
  "collectSectionElements siblingsWithH1
     = [element ''P'' [] [] ''a'' [], element ''H1'' [] [] ''b'' [], element ''P'' [] [] ''c'' []]
   \<and> specSectionElements 2 siblingsWithH1 = [element ''P'' [] [] ''a'' []]
   \<and> collectSectionElements siblingsWithH1 \<noteq> specSectionElements 2 siblingsWithH1"
  by code_simp

text \<open>
  Claim C9, amended.  Given the siblings that follow a heading, \<^verbatim>\<open>collectSectionElements\<close>
  returns, in order, exactly those before the next H2 heading: the result is a prefix of
  the siblings, holds no H2 element, and what follows it is nothing or starts with an H2
  element.  Headings of other levels, H1 included, do not end the section.
\<close>

theorem collect_until_next_H2:
  "\<exists>rest. following = collectSectionElements following @ rest
     \<and> (\<forall>n \<in> set (collectSectionElements following). tagName n \<noteq> ''H2'')
     \<and> (case rest of [] \<Rightarrow> True | n # _ \<Rightarrow> tagName n = ''H2'')"
proof -
  let ?P = "\<lambda>current. tagName current \<noteq> ''H2''"
  have "following = takeWhile ?P following @ dropWhile ?P following"
    by simp
  moreover have "\<forall>n \<in> set (takeWhile ?P following). tagName n \<noteq> ''H2''"
    by (auto dest: set_takeWhileD)
  moreover have "case dropWhile ?P following of [] \<Rightarrow> True | n # _ \<Rightarrow> tagName n = ''H2''"
    by (induction following) simp_all
  ultimately show ?thesis
    unfolding collectSectionElements_def by blast
qed

theorem collect_until_next_H2_witness:
  "siblingsWithH1 = collectSectionElements siblingsWithH1
       @ [element ''H2'' [] [] ''d'' [], element ''P'' [] [] ''e'' []]
   \<and> tagName (element ''H2'' [] [] ''d'' []) = ''H2''
   \<and> list_all (\<lambda>n. tagName n \<noteq> ''H2'') (collectSectionElements siblingsWithH1)
   \<and> length (collectSectionElements siblingsWithH1) = 3"
proof -
  from collect_until_next_H2 [of siblingsWithH1]
  obtain rest where "siblingsWithH1 = collectSectionElements siblingsWithH1 @ rest"
    and "\<forall>n \<in> set (collectSectionElements siblingsWithH1). tagName n \<noteq> ''H2''"
    by blast
  then have "list_all (\<lambda>n. tagName n \<noteq> ''H2'') (collectSectionElements siblingsWithH1)"
    by (simp add: list_all_iff)
  moreover have "siblingsWithH1 = collectSectionElements siblingsWithH1
       @ [element ''H2'' [] [] ''d'' [], element ''P'' [] [] ''e'' []]
     \<and> tagName (element ''H2'' [] [] ''d'' []) = ''H2''
     \<and> length (collectSectionElements siblingsWithH1) = 3"
    by code_simp
  ultimately show ?thesis by simp
qed

subsection \<open>The fallback\<close>

lemma keyCount_None: "keyCount v = None \<longleftrightarrow> v = JNull"
  by (cases v) simp_all

lemma fallbackData_null: "fallbackData xd = JNull \<longleftrightarrow> map_of xd ''event'' = Some JNull"
  by (simp add: fallbackData_def split: option.split)

lemma fallbackLoop_files:
  assumes "\<forall>e \<in> set bkp. \<not> nullEvent i e"
  shows "fallbackLoop i bkp files
           = \<lparr>written = files @ map (recoveredFile i) (filter (usableBackup i) bkp), resolved = True\<rparr>"
  using assms
proof (induction bkp arbitrary: files)
  case Nil
  show ?case by simp
next
  case (Cons e es)
  then have rest: "fallbackLoop i es fs
      = \<lparr>written = fs @ map (recoveredFile i) (filter (usableBackup i) es), resolved = True\<rparr>" for fs
    by simp
  show ?case
  proof (cases "if eventID e = i then extraData e else None")
    case None
    then have "\<not> usableBackup i e"
      by (auto simp: usableBackup_def split: if_splits)
    with None show ?thesis by (simp add: rest)
  next
    case (Some xd)
    then have e: "eventID e = i" "extraData e = Some xd"
      by (simp_all split: if_splits)
    with Cons.prems have "map_of xd ''event'' \<noteq> Some JNull"
      by (simp add: nullEvent_def)
    then obtain n where n: "keyCount (fallbackData xd) = Some n"
      using keyCount_None [of "fallbackData xd"] fallbackData_null [of xd] by (cases "keyCount (fallbackData xd)") auto
    show ?thesis
    proof (cases "n > 0")
      case True
      with e n have "usableBackup i e" "recoveredFile i e = tempFileFor i (Recovered (fallbackData xd))"
        by (simp_all add: usableBackup_def recoveredFile_def)
      with Some n True show ?thesis by (simp add: rest)
    next
      case False
      with e n have "\<not> usableBackup i e"
        by (simp add: usableBackup_def)
      with Some n False show ?thesis by (simp add: rest)
    qed
  qed
qed

lemma scheduleOnly_file:
  assumes "eventID e = i" and "extraData e = Some xd" and "scheduleOnly xd v"
  shows "usableBackup i e \<and> recoveredFile i e = tempFileFor i (Recovered (JObj [(''raidSchedule'', v)]))"
  using assms by (simp add: usableBackup_def recoveredFile_def scheduleOnly_def fallbackData_def)

text \<open>
  Apart from a backup entry of the event with a nested \<^verbatim>\<open>event: null\<close>, the fallback
  completes and writes one record per backup entry of the event with usable fields, in
  order.  For an entry in the flattened shape with \<open>raidSchedule\<close> and without
  \<open>raidbattles\<close> and \<open>event\<close>, the record's data is the object with the one field
  \<open>raidSchedule\<close>; an entry with none of the three fields adds no record.
\<close>

lemma fallback_without_null_event:
  assumes "document = Rejected \<or> document = Page None"
    and "\<forall>e \<in> set bkp. \<not> nullEvent i e"
  shows "get document i bkp
           = \<lparr>written = map (recoveredFile i) (filter (usableBackup i) bkp), resolved = True\<rparr>"
  using assms(1) fallbackLoop_files [OF assms(2), of "[]"] by (auto simp: get_def)

lemma schedule_only_record:
  assumes "document = Rejected \<or> document = Page None"
    and "\<forall>e \<in> set (before @ e # after). \<not> nullEvent i e"
    and "eventID e = i" and "extraData e = Some xd" and "scheduleOnly xd v"
  shows "written (get document i (before @ e # after))
           = written (get document i before)
             @ tempFileFor i (Recovered (JObj [(''raidSchedule'', v)]))
             # written (get document i after)"
proof -
  have "\<forall>e \<in> set before. \<not> nullEvent i e" and "\<forall>e \<in> set after. \<not> nullEvent i e"
    using assms(2) by simp_all
  then show ?thesis
    using fallback_without_null_event [OF assms(1,2)] fallback_without_null_event [OF assms(1), of before i]
      fallback_without_null_event [OF assms(1), of after i] scheduleOnly_file [OF assms(3,4,5)]
    by simp
qed

lemma no_fields_no_record:
  assumes "document = Rejected \<or> document = Page None"
    and "\<forall>e \<in> set (before @ e # after). \<not> nullEvent i e"
    and "extraData e = Some xd" and "map_of xd ''event'' = None"
    and "map_of xd ''raidSchedule'' = None" and "map_of xd ''raidbattles'' = None"
  shows "get document i (before @ e # after) = get document i (before @ after)"
proof -
  have "\<not> usableBackup i e"
    using assms(3-6) by (simp add: usableBackup_def fallbackData_def)
  moreover have "\<forall>e \<in> set (before @ after). \<not> nullEvent i e"
    using assms(2) by simp
  ultimately show ?thesis
    using fallback_without_null_event [OF assms(1,2)]
      fallback_without_null_event [OF assms(1), of "before @ after" i]
    by simp
qed

text \<open>
  Claim C8.  On a fetch failure the fallback should write, for a backup entry in the
  flattened shape with \<open>raidSchedule\<close> only, a record whose data holds exactly that field,
  write nothing for an entry that yields no usable field, and complete in either case.
  The code does so for \<open>flatBackup\<close> and \<open>emptyBackup\<close>.  For \<open>nullBackup\<close>, an entry
  of the event whose nested \<^verbatim>\<open>event\<close> is \<^verbatim>\<open>null\<close>, \<^verbatim>\<open>Object.keys\<close> throws inside the
  \<^verbatim>\<open>catch\<close> callback: nothing is written, \<^verbatim>\<open>resolve()\<close> is not reached and the call
  never completes; a flattened entry that follows it is never written either.
\<close>

theorem fallback_null_event:
  "get Rejected ''ev'' [flatBackup]
     = \<lparr>written = [\<lparr>f_path = ''files/temp/ev.json'', f_id = ''ev'', f_type = ''event'',
                     f_data = Recovered (JObj [(''raidSchedule'', JArr [JStr ''day''])])\<rparr>],
        resolved = True\<rparr>
   \<and> get Rejected ''ev'' [emptyBackup] = \<lparr>written = [], resolved = True\<rparr>
   \<and> get Rejected ''ev'' [nullBackup] = \<lparr>written = [], resolved = False\<rparr>
   \<and> get Rejected ''ev'' [nullBackup, flatBackup] = \<lparr>written = [], resolved = False\<rparr>"
  by code_simp

end
